theory Spec2Isabelle
  imports Main
begin

section \<open>Errors and generators\<close>

text \<open>
  The exceptions of the Python source that a caller can observe.  A \<open>ValueError\<close> or an
  \<open>AssertionError\<close> raised inside a pydantic validator reaches the caller as a
  \<open>ValidationError\<close>; every other exception of a validator propagates unchanged.
  \<open>RuntimeError\<close> is what a generator raises when \<open>next\<close> on an exhausted iterator
  raises \<open>StopIteration\<close> inside its body.
\<close>

datatype error =
    TypeError
  | NotImplementedError
  | RuntimeError
  | AttributeError
  | AssertionError
  | ValueError
  | ValidationError

text \<open>
  A \<open>render\<close> method is a generator of fragments.  A fragment is a \<open>str\<close>, or an object
  that is not a \<open>str\<close>: one \<open>render\<close> yields the member of an enumeration itself.  The
  model of a \<open>render\<close> is the outcome of running the generator to its end: the list of
  the fragments it yielded, or the exception that interrupted it.
\<close>

datatype fragment = Str string | Not_str

type_synonym fragments = "fragment list"

text \<open>\<open>lit s\<close> is \<open>yield s\<close> for a string \<open>s\<close>.\<close>

definition lit :: "string \<Rightarrow> error + fragments" where
  "lit s = Inr [Str s]"

text \<open>
  \<open>yields\<close> runs a sequence of \<open>yield\<close> and \<open>yield from\<close> statements in order; the
  first one that raises ends the generator.
\<close>

fun yields :: "(error + fragments) list \<Rightarrow> error + fragments" where
  "yields [] = Inr []"
| "yields (Inl e # rest) = Inl e"
| "yields (Inr xs # rest) =
     (case yields rest of Inl e \<Rightarrow> Inl e | Inr ys \<Rightarrow> Inr (xs @ ys))"

text \<open>
  \<open>"".join(parts)\<close> runs the generator to its end and then joins: a fragment that is
  not a \<open>str\<close> is a \<open>TypeError\<close> of the join.
\<close>

fun join_fragments :: "fragments \<Rightarrow> error + string" where
  "join_fragments [] = Inr []"
| "join_fragments (Str s # rest) =
     (case join_fragments rest of Inl e \<Rightarrow> Inl e | Inr t \<Rightarrow> Inr (s @ t))"
| "join_fragments (Not_str # rest) = Inl TypeError"

text \<open>\<open>to_string\<close> is \<open>"".join(part for part in self.render())\<close>.\<close>

definition to_string :: "error + fragments \<Rightarrow> error + string" where
  "to_string r = (case r of Inl e \<Rightarrow> Inl e | Inr xs \<Rightarrow> join_fragments xs)"

section \<open>The schema of the expression classes\<close>

text \<open>
  The field \<open>additional_expressions\<close> of \<open>AdditiveExpression\<close> is annotated
  \<^verbatim>\<open>
    Optional[
        List[
            Tuple[MultiplacativeOperator, MultiplicativeExpression]
            | NumericLiteralPositive
            | NumericLiteralNegative,
            Optional[List[Tuple[MultiplyDivideOperators, UnaryExpression]]],
        ]
    ]
  \<close>
  \<open>typing.List\<close> takes one argument and is given two: evaluating the annotation is a
  \<open>TypeError\<close>.  The module postpones the evaluation of annotations, so the annotation
  is evaluated when the schema of a class is built, at each call of the constructor of a
  class whose fields reach \<open>AdditiveExpression\<close>: the expression classes, \<open>Filter\<close>,
  \<open>Aggregate\<close> and the graph pattern classes (through \<open>Filter\<close>).  The classes of the
  terminals, triples, paths, \<open>TriplesBlock\<close>, \<open>Quads\<close> and \<open>ConstructTriples\<close> do not
  reach it.
\<close>

definition typing_List :: "nat \<Rightarrow> error + unit" where
  "typing_List number_of_arguments =
     (if number_of_arguments = 1 then Inr () else Inl TypeError)"

definition expression_schema :: "error + unit" where
  "expression_schema = typing_List 2"

text \<open>
  The call of the constructor of a class whose fields reach \<open>AdditiveExpression\<close>, on
  fields that pass their validation: the schema is built first.
\<close>

definition constructed :: "'a \<Rightarrow> error + 'a" where
  "constructed node = (case expression_schema of Inl e \<Rightarrow> Inl e | Inr u \<Rightarrow> Inr node)"

text \<open>One statement after another: the first exception ends the function.\<close>

definition and_then :: "error + 'a \<Rightarrow> ('a \<Rightarrow> error + 'b) \<Rightarrow> error + 'b" where
  "and_then r f = (case r of Inl e \<Rightarrow> Inl e | Inr x \<Rightarrow> f x)"

text \<open>A list comprehension over calls that may raise: the first exception ends it.\<close>

fun all_built :: "(error + 'a) list \<Rightarrow> error + 'a list" where
  "all_built [] = Inr []"
| "all_built (Inl e # rest) = Inl e"
| "all_built (Inr x # rest) =
     (case all_built rest of Inl e \<Rightarrow> Inl e | Inr xs \<Rightarrow> Inr (x # xs))"

text \<open>
  The generator idiom shared by \<open>ObjectList\<close>, \<open>ObjectListPath\<close>, \<open>PathAlternative\<close>
  and \<open>PathSequence\<close>:
  \<^verbatim>\<open>
    it = iter(items); first = next(it)
    yield from first.render()
    for item in it:
        yield sep
        yield from item.render()
  \<close>
  applied to the renderings of the items.  On an empty list \<open>next\<close> raises
  \<open>StopIteration\<close> inside the generator, which surfaces as \<open>RuntimeError\<close>.
\<close>

definition first_then_sep :: "string \<Rightarrow> (error + fragments) list \<Rightarrow> error + fragments" where
  "first_then_sep sep rs =
     (case rs of
        [] \<Rightarrow> Inl RuntimeError
      | first # rest \<Rightarrow> yields (first # concat (map (\<lambda>r. [lit sep, r]) rest)))"

section \<open>Terminals\<close>

text \<open>
  The terminal classes of \<open>terminals.py\<close> that the grammar uses, each holding its
  \<open>value\<close> string.  The lexical pattern of a terminal is checked when it is built and
  is not re-examined by the grammar layer; a \<open>Terminal\<close> here is one that was built.
\<close>

datatype Terminal =
    IRIREF string
  | PNAME_NS string
  | PNAME_LN string
  | BlankNodeLabel string
  | VAR1 string
  | VAR2 string
  | LANGTAG string
  | INTEGER string
  | DECIMAL string
  | DOUBLE string
  | INTEGER_POSITIVE string
  | DECIMAL_POSITIVE string
  | DOUBLE_POSITIVE string
  | INTEGER_NEGATIVE string
  | DECIMAL_NEGATIVE string
  | DOUBLE_NEGATIVE string
  | STRING_LITERAL1 string
  | STRING_LITERAL2 string
  | STRING_LITERAL_LONG1 string
  | STRING_LITERAL_LONG2 string
  | NIL string

text \<open>
  \<open>render\<close> of a terminal.  A class that does not override it inherits
  \<open>Terminal.render\<close>, whose body is \<open>raise self.value\<close>: raising a \<open>str\<close> is a
  \<open>TypeError\<close>.
\<close>

fun Terminal_render :: "Terminal \<Rightarrow> error + fragments" where
  "Terminal_render (IRIREF v) = yields [lit ''<'', lit v, lit ''>'']"
| "Terminal_render (BlankNodeLabel v) = yields [lit ''_:'', lit v]"
| "Terminal_render (VAR1 v) = yields [lit ''?'', lit v]"
| "Terminal_render (VAR2 v) = yields [lit ''$'', lit v]"
| "Terminal_render (LANGTAG v) = yields [lit ''@'', lit v]"
| "Terminal_render (INTEGER_POSITIVE v) = yields [lit ''+'', lit v]"
| "Terminal_render (DECIMAL_POSITIVE v) = yields [lit ''+'', lit v]"
| "Terminal_render (DOUBLE_POSITIVE v) = yields [lit ''+'', lit v]"
| "Terminal_render (INTEGER_NEGATIVE v) = yields [lit ''-'', lit v]"
| "Terminal_render (DECIMAL_NEGATIVE v) = yields [lit ''-'', lit v]"
| "Terminal_render (DOUBLE_NEGATIVE v) = yields [lit ''-'', lit v]"
| "Terminal_render (STRING_LITERAL1 v) = yields [lit [CHR 0x27], lit v, lit [CHR 0x27]]"
| "Terminal_render (STRING_LITERAL2 v) = yields [lit [CHR 0x22], lit v, lit [CHR 0x22]]"
| "Terminal_render (STRING_LITERAL_LONG1 v) =
     yields [lit [CHR 0x27, CHR 0x27, CHR 0x27], lit v, lit [CHR 0x27, CHR 0x27, CHR 0x27]]"
| "Terminal_render (STRING_LITERAL_LONG2 v) =
     yields [lit [CHR 0x22, CHR 0x22, CHR 0x22], lit v, lit [CHR 0x22, CHR 0x22, CHR 0x22]]"
| "Terminal_render (NIL v) = yields [lit ''('', lit v, lit '')'']"
| "Terminal_render (PNAME_NS v) = Inl TypeError"
| "Terminal_render (PNAME_LN v) = Inl TypeError"
| "Terminal_render (INTEGER v) = Inl TypeError"
| "Terminal_render (DECIMAL v) = Inl TypeError"
| "Terminal_render (DOUBLE v) = Inl TypeError"

section \<open>Leaf nodes of the grammar\<close>

text \<open>
  A class whose single field is a union of classes is a datatype with one constructor per
  alternative, named \<open>Class_Alternative\<close>; where the alternative is a terminal class the
  constructor holds the terminal's \<open>value\<close> string.  \<open>yield from self.value.render()\<close>
  dispatches on the class of the field.
\<close>

datatype Var = Var_VAR1 string | Var_VAR2 string

fun Var_render :: "Var \<Rightarrow> error + fragments" where
  "Var_render (Var_VAR1 v) = Terminal_render (VAR1 v)"
| "Var_render (Var_VAR2 v) = Terminal_render (VAR2 v)"

datatype PrefixedName = PrefixedName_PNAME_LN string | PrefixedName_PNAME_NS string

fun PrefixedName_render :: "PrefixedName \<Rightarrow> error + fragments" where
  "PrefixedName_render (PrefixedName_PNAME_LN v) = Terminal_render (PNAME_LN v)"
| "PrefixedName_render (PrefixedName_PNAME_NS v) = Terminal_render (PNAME_NS v)"

datatype iri = iri_IRIREF string | iri_PrefixedName PrefixedName

fun iri_render :: "iri \<Rightarrow> error + fragments" where
  "iri_render (iri_IRIREF v) = Terminal_render (IRIREF v)"
| "iri_render (iri_PrefixedName p) = PrefixedName_render p"

text \<open>
  \<open>Anon\<close> is a plain class without fields, \<open>__eq__\<close> or \<open>__hash__\<close>: an \<open>Anon\<close> object
  is equal to itself only, and the constructor \<open>BlankNode_Anon\<close> holds the identity of the
  object.  Its \<open>render\<close> yields \<open>"["\<close> and then reads \<open>self.value\<close>, which no \<open>Anon\<close>
  object has.  The other objects of a tree are models, compared field by field, and
  members of enumerations.
\<close>

datatype BlankNode = BlankNode_BlankNodeLabel string | BlankNode_Anon nat

fun BlankNode_render :: "BlankNode \<Rightarrow> error + fragments" where
  "BlankNode_render (BlankNode_BlankNodeLabel v) =
     yields [Terminal_render (BlankNodeLabel v), lit '' '']"
| "BlankNode_render (BlankNode_Anon identity) =
     yields [yields [lit ''['', Inl AttributeError, lit '']''], lit '' '']"

datatype String =
    String_STRING_LITERAL1 string
  | String_STRING_LITERAL2 string
  | String_STRING_LITERAL_LONG1 string
  | String_STRING_LITERAL_LONG2 string

fun String_render :: "String \<Rightarrow> error + fragments" where
  "String_render (String_STRING_LITERAL1 v) = Terminal_render (STRING_LITERAL1 v)"
| "String_render (String_STRING_LITERAL2 v) = Terminal_render (STRING_LITERAL2 v)"
| "String_render (String_STRING_LITERAL_LONG1 v) = Terminal_render (STRING_LITERAL_LONG1 v)"
| "String_render (String_STRING_LITERAL_LONG2 v) = Terminal_render (STRING_LITERAL_LONG2 v)"

text \<open>\<open>RDFLiteral\<close>: \<open>value: String\<close>, \<open>langtag: Optional[LANGTAG]\<close>, \<open>datatype: Optional[iri]\<close>.\<close>

datatype RDFLiteral = RDFLiteral String "string option" "iri option"

fun RDFLiteral_render :: "RDFLiteral \<Rightarrow> error + fragments" where
  "RDFLiteral_render (RDFLiteral v langtag dt) =
     yields [String_render v,
       (case langtag of
          Some l \<Rightarrow> Terminal_render (LANGTAG l)
        | None \<Rightarrow>
            (case dt of
               Some d \<Rightarrow> yields [lit ''^^'', iri_render d]
             | None \<Rightarrow> yields []))]"

datatype NumericLiteralUnsigned =
    NumericLiteralUnsigned_INTEGER string
  | NumericLiteralUnsigned_DECIMAL string
  | NumericLiteralUnsigned_DOUBLE string

datatype NumericLiteralPositive =
    NumericLiteralPositive_INTEGER_POSITIVE string
  | NumericLiteralPositive_DECIMAL_POSITIVE string
  | NumericLiteralPositive_DOUBLE_POSITIVE string

datatype NumericLiteralNegative =
    NumericLiteralNegative_INTEGER_NEGATIVE string
  | NumericLiteralNegative_DECIMAL_NEGATIVE string
  | NumericLiteralNegative_DOUBLE_NEGATIVE string

datatype NumericLiteral =
    NumericLiteral_NumericLiteralUnsigned NumericLiteralUnsigned
  | NumericLiteral_NumericLiteralPositive NumericLiteralPositive
  | NumericLiteral_NumericLiteralNegative NumericLiteralNegative

fun NumericLiteralUnsigned_render :: "NumericLiteralUnsigned \<Rightarrow> error + fragments" where
  "NumericLiteralUnsigned_render (NumericLiteralUnsigned_INTEGER v) = Terminal_render (INTEGER v)"
| "NumericLiteralUnsigned_render (NumericLiteralUnsigned_DECIMAL v) = Terminal_render (DECIMAL v)"
| "NumericLiteralUnsigned_render (NumericLiteralUnsigned_DOUBLE v) = Terminal_render (DOUBLE v)"

fun NumericLiteralPositive_render :: "NumericLiteralPositive \<Rightarrow> error + fragments" where
  "NumericLiteralPositive_render (NumericLiteralPositive_INTEGER_POSITIVE v) =
     Terminal_render (INTEGER_POSITIVE v)"
| "NumericLiteralPositive_render (NumericLiteralPositive_DECIMAL_POSITIVE v) =
     Terminal_render (DECIMAL_POSITIVE v)"
| "NumericLiteralPositive_render (NumericLiteralPositive_DOUBLE_POSITIVE v) =
     Terminal_render (DOUBLE_POSITIVE v)"

fun NumericLiteralNegative_render :: "NumericLiteralNegative \<Rightarrow> error + fragments" where
  "NumericLiteralNegative_render (NumericLiteralNegative_INTEGER_NEGATIVE v) =
     Terminal_render (INTEGER_NEGATIVE v)"
| "NumericLiteralNegative_render (NumericLiteralNegative_DECIMAL_NEGATIVE v) =
     Terminal_render (DECIMAL_NEGATIVE v)"
| "NumericLiteralNegative_render (NumericLiteralNegative_DOUBLE_NEGATIVE v) =
     Terminal_render (DOUBLE_NEGATIVE v)"

fun NumericLiteral_render :: "NumericLiteral \<Rightarrow> error + fragments" where
  "NumericLiteral_render (NumericLiteral_NumericLiteralUnsigned n) = NumericLiteralUnsigned_render n"
| "NumericLiteral_render (NumericLiteral_NumericLiteralPositive n) = NumericLiteralPositive_render n"
| "NumericLiteral_render (NumericLiteral_NumericLiteralNegative n) = NumericLiteralNegative_render n"

datatype BoolOptions = TRUE | FALSE

fun BoolOptions_value :: "BoolOptions \<Rightarrow> string" where
  "BoolOptions_value TRUE = ''true''"
| "BoolOptions_value FALSE = ''false''"

datatype BooleanLiteral = BooleanLiteral BoolOptions

text \<open>\<open>yield from self.value.value\<close> iterates over a \<open>str\<close>: one fragment per character.\<close>

fun BooleanLiteral_render :: "BooleanLiteral \<Rightarrow> error + fragments" where
  "BooleanLiteral_render (BooleanLiteral b) = Inr (map (\<lambda>c. Str [c]) (BoolOptions_value b))"

datatype GraphTerm =
    GraphTerm_iri iri
  | GraphTerm_RDFLiteral RDFLiteral
  | GraphTerm_NumericLiteral NumericLiteral
  | GraphTerm_BooleanLiteral BooleanLiteral
  | GraphTerm_BlankNode BlankNode
  | GraphTerm_NIL string

fun GraphTerm_render :: "GraphTerm \<Rightarrow> error + fragments" where
  "GraphTerm_render (GraphTerm_iri i) = iri_render i"
| "GraphTerm_render (GraphTerm_RDFLiteral l) = RDFLiteral_render l"
| "GraphTerm_render (GraphTerm_NumericLiteral n) = NumericLiteral_render n"
| "GraphTerm_render (GraphTerm_BooleanLiteral b) = BooleanLiteral_render b"
| "GraphTerm_render (GraphTerm_BlankNode b) = BlankNode_render b"
| "GraphTerm_render (GraphTerm_NIL v) = Terminal_render (NIL v)"

datatype VarOrTerm = VarOrTerm_Var Var | VarOrTerm_GraphTerm GraphTerm

fun VarOrTerm_render :: "VarOrTerm \<Rightarrow> error + fragments" where
  "VarOrTerm_render (VarOrTerm_Var v) = Var_render v"
| "VarOrTerm_render (VarOrTerm_GraphTerm g) = GraphTerm_render g"

datatype VarOrIri = VarOrIri_Var Var | VarOrIri_iri iri

fun VarOrIri_render :: "VarOrIri \<Rightarrow> error + fragments" where
  "VarOrIri_render (VarOrIri_Var v) = Var_render v"
| "VarOrIri_render (VarOrIri_iri i) = iri_render i"

datatype VerbRDFType = A

fun VerbRDFType_value :: "VerbRDFType \<Rightarrow> string" where
  "VerbRDFType_value A = ''a''"

datatype Verb = Verb_VarOrIri VarOrIri | Verb_VerbRDFType VerbRDFType

fun Verb_render :: "Verb \<Rightarrow> error + fragments" where
  "Verb_render (Verb_VarOrIri v) = VarOrIri_render v"
| "Verb_render (Verb_VerbRDFType a) = lit (VerbRDFType_value a)"

section \<open>Property paths\<close>

text \<open>\<open>PathOneInPropertySet\<close>: \<open>path: iri | VerbRDFType\<close>, \<open>negated: bool\<close>.\<close>

datatype PathOneInPropertySet = PathOneInPropertySet "iri + VerbRDFType" bool

fun PathOneInPropertySet_render :: "PathOneInPropertySet \<Rightarrow> error + fragments" where
  "PathOneInPropertySet_render (PathOneInPropertySet path negated) =
     yields [if negated then lit ''^'' else yields [],
       (case path of
          Inl i \<Rightarrow> iri_render i
        | Inr a \<Rightarrow> lit (VerbRDFType_value a))]"

text \<open>
  \<open>PathNegatedPropertySet\<close>: \<open>first_path: PathOneInPropertySet\<close>,
  \<open>other_paths: Optional[List[PathOneInPropertySet]]\<close>.
  \<^verbatim>\<open>
    def render(self):
        yield from self.first_path.render()
        if self.other_paths:
            other_paths_iter = iter(self.other_paths)
            first_other_path = next(other_paths_iter)
            yield "("
            yield from first_other_path.render()
            for path in other_paths_iter:
                yield "|"
                yield from path.render()
            yield ")"
  \<close>
  \<open>if self.other_paths\<close> is false for \<open>None\<close> and for the empty list.
\<close>

datatype PathNegatedPropertySet =
  PathNegatedPropertySet PathOneInPropertySet "PathOneInPropertySet list option"

fun PathNegatedPropertySet_render :: "PathNegatedPropertySet \<Rightarrow> error + fragments" where
  "PathNegatedPropertySet_render (PathNegatedPropertySet first_path other_paths) =
     yields [PathOneInPropertySet_render first_path,
       (case other_paths of
          None \<Rightarrow> yields []
        | Some [] \<Rightarrow> yields []
        | Some (first_other_path # rest) \<Rightarrow>
            yields ([lit ''('', PathOneInPropertySet_render first_other_path]
                    @ concat (map (\<lambda>p. [lit ''|'', PathOneInPropertySet_render p]) rest)
                    @ [lit '')'']))]"

text \<open>\<open>PathMod\<close>: \<open>pathmod: str\<close>, one of \<open>?\<close>, \<open>*\<close>, \<open>+\<close> by its field validator.\<close>

datatype PathMod = PathMod string

definition PathMod_new :: "string \<Rightarrow> error + PathMod" where
  "PathMod_new v =
     (if v \<notin> set [''?'', ''*'', ''+''] then Inl ValidationError else Inr (PathMod v))"

fun PathMod_render :: "PathMod \<Rightarrow> error + fragments" where
  "PathMod_render (PathMod pathmod) = lit pathmod"

datatype SG_Path = SG_Path PathAlternative
  and PathAlternative = PathAlternative "PathSequence list"
  and PathSequence = PathSequence "PathEltOrInverse list"
  and PathEltOrInverse = PathEltOrInverse PathElt bool
  and PathElt = PathElt PathPrimary "PathMod option"
  and PathPrimary =
      PathPrimary_iri iri
    | PathPrimary_VerbRDFType VerbRDFType
    | PathPrimary_PathNegatedPropertySet PathNegatedPropertySet
    | PathPrimary_SG_Path SG_Path

text \<open>
  The field validators of \<open>PathAlternative\<close> and \<open>PathSequence\<close> reject the empty list.
\<close>

definition PathAlternative_new :: "PathSequence list \<Rightarrow> error + PathAlternative" where
  "PathAlternative_new v =
     (if length v = 0 then Inl ValidationError else Inr (PathAlternative v))"

definition PathSequence_new :: "PathEltOrInverse list \<Rightarrow> error + PathSequence" where
  "PathSequence_new v =
     (if length v = 0 then Inl ValidationError else Inr (PathSequence v))"

text \<open>
  In \<open>PathPrimary.render\<close> the branch for \<open>VerbRDFType\<close> is \<open>yield self.value\<close>: it
  yields the member of the enumeration itself, a fragment that is not a \<open>str\<close>, and the
  generator goes on.
\<close>

primrec SG_Path_render :: "SG_Path \<Rightarrow> error + fragments"
  and PathAlternative_render :: "PathAlternative \<Rightarrow> error + fragments"
  and PathSequence_render :: "PathSequence \<Rightarrow> error + fragments"
  and PathEltOrInverse_render :: "PathEltOrInverse \<Rightarrow> error + fragments"
  and PathElt_render :: "PathElt \<Rightarrow> error + fragments"
  and PathPrimary_render :: "PathPrimary \<Rightarrow> error + fragments"
where
  "SG_Path_render (SG_Path path_alternative) = PathAlternative_render path_alternative"
| "PathAlternative_render (PathAlternative sequence_paths) =
     first_then_sep ''|'' (map PathSequence_render sequence_paths)"
| "PathSequence_render (PathSequence list_path_elt_or_inverse) =
     first_then_sep ''/'' (map PathEltOrInverse_render list_path_elt_or_inverse)"
| "PathEltOrInverse_render (PathEltOrInverse path_elt is_inverse) =
     yields [if is_inverse then lit ''^'' else yields [], PathElt_render path_elt]"
| "PathElt_render (PathElt path_primary path_mod) =
     yields [PathPrimary_render path_primary,
       (case path_mod of Some m \<Rightarrow> PathMod_render m | None \<Rightarrow> yields [])]"
| "PathPrimary_render (PathPrimary_VerbRDFType a) = Inr [Not_str]"
| "PathPrimary_render (PathPrimary_iri i) = iri_render i"
| "PathPrimary_render (PathPrimary_PathNegatedPropertySet n) =
     yields [lit ''!'', PathNegatedPropertySet_render n]"
| "PathPrimary_render (PathPrimary_SG_Path p) =
     yields [lit ''('', SG_Path_render p, lit '')'']"

section \<open>Triples\<close>

datatype PropertyListNotEmpty = PropertyListNotEmpty "(Verb \<times> ObjectList) list"
  and ObjectList = ObjectList "Object list"
  and Object = Object GraphNode
  and GraphNode = GraphNode_VarOrTerm VarOrTerm | GraphNode_TriplesNode TriplesNode
  and TriplesNode =
      TriplesNode_SG_Collection SG_Collection
    | TriplesNode_BlankNodePropertyList BlankNodePropertyList
  and SG_Collection = SG_Collection "GraphNode list"
  and BlankNodePropertyList = BlankNodePropertyList PropertyListNotEmpty

text \<open>
  \<open>PropertyListNotEmpty.render\<close>, applied to the renderings of the verbs and object lists:
  \<^verbatim>\<open>
    vo_iter = iter(self.verb_objectlist)
    first_vo = next(vo_iter)
    yield from first_vo[0].render()  # verb
    yield " "
    yield from first_vo[1].render()  # objectlist
    for item in vo_iter:
        yield ";"
        yield from item[0].render()  # verb
        yield " "
        yield from item[1].render()  # objectlist
  \<close>
\<close>

definition verb_objectlist_render ::
  "((error + fragments) \<times> (error + fragments)) list \<Rightarrow> error + fragments" where
  "verb_objectlist_render rs =
     (case rs of
        [] \<Rightarrow> Inl RuntimeError
      | first_vo # rest \<Rightarrow>
          yields ([fst first_vo, lit '' '', snd first_vo]
                  @ concat (map (\<lambda>item. [lit '';'', fst item, lit '' '', snd item]) rest)))"

primrec PropertyListNotEmpty_render :: "PropertyListNotEmpty \<Rightarrow> error + fragments"
  and ObjectList_render :: "ObjectList \<Rightarrow> error + fragments"
  and Object_render :: "Object \<Rightarrow> error + fragments"
  and GraphNode_render :: "GraphNode \<Rightarrow> error + fragments"
  and TriplesNode_render :: "TriplesNode \<Rightarrow> error + fragments"
  and SG_Collection_render :: "SG_Collection \<Rightarrow> error + fragments"
  and BlankNodePropertyList_render :: "BlankNodePropertyList \<Rightarrow> error + fragments"
where
  "PropertyListNotEmpty_render (PropertyListNotEmpty verb_objectlist) =
     verb_objectlist_render (map (map_prod Verb_render ObjectList_render) verb_objectlist)"
| "ObjectList_render (ObjectList list_object) =
     first_then_sep '','' (map Object_render list_object)"
| "Object_render (Object graphnode) = GraphNode_render graphnode"
| "GraphNode_render (GraphNode_VarOrTerm v) = VarOrTerm_render v"
| "GraphNode_render (GraphNode_TriplesNode t) = TriplesNode_render t"
| "TriplesNode_render (TriplesNode_SG_Collection c) = SG_Collection_render c"
| "TriplesNode_render (TriplesNode_BlankNodePropertyList b) = BlankNodePropertyList_render b"
| "SG_Collection_render (SG_Collection graphnode_list) =
     yields ([lit ''(''] @ map GraphNode_render graphnode_list @ [lit '')''])"
| "BlankNodePropertyList_render (BlankNodePropertyList plne) =
     yields [lit ''['', PropertyListNotEmpty_render plne, lit '']'']"

text \<open>\<open>PropertyList\<close>: \<open>plne: Optional[PropertyListNotEmpty]\<close>.\<close>

datatype PropertyList = PropertyList "PropertyListNotEmpty option"

fun PropertyList_render :: "PropertyList \<Rightarrow> error + fragments" where
  "PropertyList_render (PropertyList plne) =
     (case plne of Some p \<Rightarrow> PropertyListNotEmpty_render p | None \<Rightarrow> yields [])"

text \<open>
  \<open>TriplesSameSubject\<close>:
  \<open>content: Tuple[VarOrTerm, PropertyListNotEmpty] | Tuple[TriplesNode, PropertyList]\<close>.
\<close>

datatype TriplesSameSubject =
    TriplesSameSubject_VarOrTerm "VarOrTerm \<times> PropertyListNotEmpty"
  | TriplesSameSubject_TriplesNode "TriplesNode \<times> PropertyList"

fun TriplesSameSubject_render :: "TriplesSameSubject \<Rightarrow> error + fragments" where
  "TriplesSameSubject_render (TriplesSameSubject_VarOrTerm content) =
     yields [VarOrTerm_render (fst content), lit '' '',
             PropertyListNotEmpty_render (snd content)]"
| "TriplesSameSubject_render (TriplesSameSubject_TriplesNode content) =
     yields [TriplesNode_render (fst content), lit '' '', PropertyList_render (snd content)]"

datatype VerbPath = VerbPath SG_Path

fun VerbPath_render :: "VerbPath \<Rightarrow> error + fragments" where
  "VerbPath_render (VerbPath path) = SG_Path_render path"

datatype VerbSimple = VerbSimple Var

fun VerbSimple_render :: "VerbSimple \<Rightarrow> error + fragments" where
  "VerbSimple_render (VerbSimple var) = Var_render var"

text \<open>The render of a field of type \<open>VerbPath | VerbSimple\<close>.\<close>

fun VerbPath_or_VerbSimple_render :: "VerbPath + VerbSimple \<Rightarrow> error + fragments" where
  "VerbPath_or_VerbSimple_render (Inl v) = VerbPath_render v"
| "VerbPath_or_VerbSimple_render (Inr v) = VerbSimple_render v"

text \<open>
  \<open>PropertyListPathNotEmpty\<close>:
  \<open>first_pair: Tuple[VerbPath | VerbSimple, ObjectListPath]\<close>,
  \<open>other_pairs: Optional[List[Tuple[VerbPath | VerbSimple, ObjectList]]]\<close>.
\<close>

datatype PropertyListPathNotEmpty =
    PropertyListPathNotEmpty
      "(VerbPath + VerbSimple) \<times> ObjectListPath"
      "((VerbPath + VerbSimple) \<times> ObjectList) list option"
  and ObjectListPath = ObjectListPath "ObjectPath list"
  and ObjectPath = ObjectPath GraphNodePath
  and GraphNodePath =
      GraphNodePath_VarOrTerm VarOrTerm
    | GraphNodePath_TriplesNodePath TriplesNodePath
  and TriplesNodePath =
      TriplesNodePath_CollectionPath CollectionPath
    | TriplesNodePath_BlankNodePropertyListPath BlankNodePropertyListPath
  and CollectionPath = CollectionPath "GraphNodePath list"
  and BlankNodePropertyListPath = BlankNodePropertyListPath PropertyListPathNotEmpty

text \<open>
  \<open>PropertyListPathNotEmpty.render\<close>, applied to the renderings of the pairs:
  \<^verbatim>\<open>
    yield from self.first_pair[0].render()
    yield " "
    yield from self.first_pair[1].render()
    if self.other_pairs:
        for pair in self.other_pairs:
            yield ";"
            yield from pair[0].render()
            yield " "
            yield from pair[1].render()
  \<close>
\<close>

definition pairs_render ::
  "(error + fragments) \<times> (error + fragments) \<Rightarrow>
   ((error + fragments) \<times> (error + fragments)) list option \<Rightarrow> error + fragments" where
  "pairs_render first_pair other_pairs =
     yields ([fst first_pair, lit '' '', snd first_pair]
       @ (case other_pairs of
            None \<Rightarrow> []
          | Some ps \<Rightarrow> concat (map (\<lambda>pair. [lit '';'', fst pair, lit '' '', snd pair]) ps)))"

primrec PropertyListPathNotEmpty_render :: "PropertyListPathNotEmpty \<Rightarrow> error + fragments"
  and ObjectListPath_render :: "ObjectListPath \<Rightarrow> error + fragments"
  and ObjectPath_render :: "ObjectPath \<Rightarrow> error + fragments"
  and GraphNodePath_render :: "GraphNodePath \<Rightarrow> error + fragments"
  and TriplesNodePath_render :: "TriplesNodePath \<Rightarrow> error + fragments"
  and CollectionPath_render :: "CollectionPath \<Rightarrow> error + fragments"
  and BlankNodePropertyListPath_render :: "BlankNodePropertyListPath \<Rightarrow> error + fragments"
where
  "PropertyListPathNotEmpty_render (PropertyListPathNotEmpty first_pair other_pairs) =
     pairs_render
       (map_prod VerbPath_or_VerbSimple_render ObjectListPath_render first_pair)
       (map_option (map (map_prod VerbPath_or_VerbSimple_render ObjectList_render)) other_pairs)"
| "ObjectListPath_render (ObjectListPath object_paths) =
     first_then_sep '','' (map ObjectPath_render object_paths)"
| "ObjectPath_render (ObjectPath graph_node_path) = GraphNodePath_render graph_node_path"
| "GraphNodePath_render (GraphNodePath_VarOrTerm v) = VarOrTerm_render v"
| "GraphNodePath_render (GraphNodePath_TriplesNodePath t) = TriplesNodePath_render t"
| "TriplesNodePath_render (TriplesNodePath_CollectionPath c) = CollectionPath_render c"
| "TriplesNodePath_render (TriplesNodePath_BlankNodePropertyListPath b) =
     BlankNodePropertyListPath_render b"
| "CollectionPath_render (CollectionPath graphnodepath_list) =
     yields ([lit ''(''] @ map GraphNodePath_render graphnodepath_list @ [lit '')''])"
| "BlankNodePropertyListPath_render (BlankNodePropertyListPath plpne) =
     yields [lit ''['', PropertyListPathNotEmpty_render plpne, lit '']'']"

text \<open>\<open>PropertyListPath\<close>: \<open>plpne: Optional[PropertyListPathNotEmpty]\<close>.\<close>

datatype PropertyListPath = PropertyListPath "PropertyListPathNotEmpty option"

fun PropertyListPath_render :: "PropertyListPath \<Rightarrow> error + fragments" where
  "PropertyListPath_render (PropertyListPath plpne) =
     (case plpne of Some p \<Rightarrow> PropertyListPathNotEmpty_render p | None \<Rightarrow> yields [])"

text \<open>
  \<open>TriplesSameSubjectPath\<close>:
  \<open>content: Tuple[VarOrTerm, PropertyListPathNotEmpty] | Tuple[TriplesNodePath, PropertyListPath]\<close>.
\<close>

datatype TriplesSameSubjectPath =
    TriplesSameSubjectPath_VarOrTerm "VarOrTerm \<times> PropertyListPathNotEmpty"
  | TriplesSameSubjectPath_TriplesNodePath "TriplesNodePath \<times> PropertyListPath"

fun TriplesSameSubjectPath_render :: "TriplesSameSubjectPath \<Rightarrow> error + fragments" where
  "TriplesSameSubjectPath_render (TriplesSameSubjectPath_VarOrTerm content) =
     yields [VarOrTerm_render (fst content), lit '' '',
             PropertyListPathNotEmpty_render (snd content)]"
| "TriplesSameSubjectPath_render (TriplesSameSubjectPath_TriplesNodePath content) =
     yields [TriplesNodePath_render (fst content), lit '' '',
             PropertyListPath_render (snd content)]"

subsection \<open>The builder \<open>TriplesSameSubjectPath.from_spo\<close>\<close>

text \<open>
  An argument of \<open>from_spo\<close> is any Python object; the \<open>isinstance\<close> chain tells
  \<open>Var\<close>, \<open>iri\<close> and \<open>BlankNode\<close> from everything else.
\<close>

datatype operand =
    Operand_Var Var
  | Operand_iri iri
  | Operand_BlankNode BlankNode
  | Operand_other

text \<open>
  \<^verbatim>\<open>
    if isinstance(subject, Var):
        s_vot = VarOrTerm(varorterm=subject)
    elif isinstance(subject, (iri, BlankNode)):
        s_vot = VarOrTerm(varorterm=GraphTerm(content=subject))
    else:
        raise ValueError("s must be a Var, iri or BlankNode")
  \<close>
  and the same for the object.
\<close>

fun from_spo_VarOrTerm :: "operand \<Rightarrow> error + VarOrTerm" where
  "from_spo_VarOrTerm (Operand_Var v) = Inr (VarOrTerm_Var v)"
| "from_spo_VarOrTerm (Operand_iri i) = Inr (VarOrTerm_GraphTerm (GraphTerm_iri i))"
| "from_spo_VarOrTerm (Operand_BlankNode b) = Inr (VarOrTerm_GraphTerm (GraphTerm_BlankNode b))"
| "from_spo_VarOrTerm Operand_other = Inl ValueError"

text \<open>
  \<^verbatim>\<open>
    if isinstance(predicate, Var):
        verb = VerbSimple(var=predicate)
    elif isinstance(predicate, iri):
        verb = VerbPath(path=SG_Path(path_alternative=PathAlternative(sequence_paths=[
            PathSequence(list_path_elt_or_inverse=[
                PathEltOrInverse(path_elt=PathElt(path_primary=PathPrimary(value=predicate)))])])))
    else:
        raise ValueError("p must be a Var or iri")
  \<close>
  The constructors of \<open>PathSequence\<close> and \<open>PathAlternative\<close> run their validators.
\<close>

fun from_spo_verb :: "operand \<Rightarrow> error + (VerbPath + VerbSimple)" where
  "from_spo_verb (Operand_Var v) = Inr (Inr (VerbSimple v))"
| "from_spo_verb (Operand_iri i) =
     (case PathSequence_new [PathEltOrInverse (PathElt (PathPrimary_iri i) None) False] of
        Inl e \<Rightarrow> Inl e
      | Inr path_sequence \<Rightarrow>
          (case PathAlternative_new [path_sequence] of
             Inl e \<Rightarrow> Inl e
           | Inr path_alternative \<Rightarrow> Inr (Inl (VerbPath (SG_Path path_alternative)))))"
| "from_spo_verb (Operand_BlankNode b) = Inl ValueError"
| "from_spo_verb Operand_other = Inl ValueError"

definition from_spo :: "operand \<Rightarrow> operand \<Rightarrow> operand \<Rightarrow> error + TriplesSameSubjectPath" where
  "from_spo subject predicate object =
     (case from_spo_VarOrTerm subject of
        Inl e \<Rightarrow> Inl e
      | Inr s_vot \<Rightarrow>
          (case from_spo_verb predicate of
             Inl e \<Rightarrow> Inl e
           | Inr verb \<Rightarrow>
               (case from_spo_VarOrTerm object of
                  Inl e \<Rightarrow> Inl e
                | Inr o_vot \<Rightarrow>
                    Inr (TriplesSameSubjectPath_VarOrTerm
                          (s_vot,
                           PropertyListPathNotEmpty
                             (verb, ObjectListPath [ObjectPath (GraphNodePath_VarOrTerm o_vot)])
                             None)))))"

text \<open>
  The tree assembled by hand, field by field, for operands of the supported classes:
  the subject and the object as a \<open>VarOrTerm\<close> (a \<open>Var\<close> directly, an \<open>iri\<close> or a
  \<open>BlankNode\<close> inside a \<open>GraphTerm\<close>), the predicate as a \<open>VerbSimple\<close> (a \<open>Var\<close>) or a
  \<open>VerbPath\<close> (an \<open>iri\<close>, as the only primary of a one-element sequence of a one-element
  alternative), and a \<open>PropertyListPathNotEmpty\<close> whose only pair holds an
  \<open>ObjectListPath\<close> with the one object.
\<close>

datatype term_operand = Term_Var Var | Term_iri iri | Term_BlankNode BlankNode

datatype verb_operand = Predicate_Var Var | Predicate_iri iri

fun operand_of_term :: "term_operand \<Rightarrow> operand" where
  "operand_of_term (Term_Var v) = Operand_Var v"
| "operand_of_term (Term_iri i) = Operand_iri i"
| "operand_of_term (Term_BlankNode b) = Operand_BlankNode b"

fun operand_of_verb :: "verb_operand \<Rightarrow> operand" where
  "operand_of_verb (Predicate_Var v) = Operand_Var v"
| "operand_of_verb (Predicate_iri i) = Operand_iri i"

fun hand_VarOrTerm :: "term_operand \<Rightarrow> VarOrTerm" where
  "hand_VarOrTerm (Term_Var v) = VarOrTerm_Var v"
| "hand_VarOrTerm (Term_iri i) = VarOrTerm_GraphTerm (GraphTerm_iri i)"
| "hand_VarOrTerm (Term_BlankNode b) = VarOrTerm_GraphTerm (GraphTerm_BlankNode b)"

fun hand_verb :: "verb_operand \<Rightarrow> VerbPath + VerbSimple" where
  "hand_verb (Predicate_Var v) = Inr (VerbSimple v)"
| "hand_verb (Predicate_iri i) =
     Inl (VerbPath (SG_Path (PathAlternative
       [PathSequence [PathEltOrInverse (PathElt (PathPrimary_iri i) None) False]])))"

definition hand_assembled ::
  "term_operand \<Rightarrow> verb_operand \<Rightarrow> term_operand \<Rightarrow> TriplesSameSubjectPath" where
  "hand_assembled s p ob =
     TriplesSameSubjectPath_VarOrTerm
       (hand_VarOrTerm s,
        PropertyListPathNotEmpty
          (hand_verb p, ObjectListPath [ObjectPath (GraphNodePath_VarOrTerm (hand_VarOrTerm ob))])
          None)"

text \<open>The rendering of the result of a builder, which may have raised.\<close>

definition render_built ::
  "('a \<Rightarrow> error + fragments) \<Rightarrow> error + 'a \<Rightarrow> error + fragments" where
  "render_built r built = (case built of Inl e \<Rightarrow> Inl e | Inr node \<Rightarrow> r node)"

subsection \<open>Hashing\<close>

text \<open>
  \<open>collect_triples\<close> removes duplicates with \<open>list(set(triples))\<close>, which hashes every
  collected \<open>TriplesSameSubjectPath\<close>.  The functions below follow the \<open>__hash__\<close>
  methods of the classes and say whether the hash is computed (\<open>True\<close>) or raises
  \<open>TypeError\<close> (\<open>False\<close>): a \<open>list\<close> is unhashable, and so is an object of a model class
  that defines no \<open>__hash__\<close> (\<open>String\<close>, \<open>BooleanLiteral\<close>, \<open>PropertyListPath\<close>), since
  the models are not frozen.  Terminals hash their \<open>value\<close> string; \<open>Var\<close>, \<open>iri\<close>,
  \<open>PrefixedName\<close>, \<open>BlankNode\<close>, the numeric literals, \<open>PathMod\<close> and
  \<open>PathOneInPropertySet\<close> hash terminals, strings, booleans and enumeration members, and
  their hash is always computed.
\<close>

fun GraphTerm_hashable :: "GraphTerm \<Rightarrow> bool" where
  "GraphTerm_hashable (GraphTerm_iri i) = True"
| "GraphTerm_hashable (GraphTerm_RDFLiteral l) = False"
| "GraphTerm_hashable (GraphTerm_NumericLiteral n) = True"
| "GraphTerm_hashable (GraphTerm_BooleanLiteral b) = False"
| "GraphTerm_hashable (GraphTerm_BlankNode b) = True"
| "GraphTerm_hashable (GraphTerm_NIL v) = True"

fun VarOrTerm_hashable :: "VarOrTerm \<Rightarrow> bool" where
  "VarOrTerm_hashable (VarOrTerm_Var v) = True"
| "VarOrTerm_hashable (VarOrTerm_GraphTerm g) = GraphTerm_hashable g"

text \<open>\<open>hash((self.first_path, self.other_paths))\<close>: \<open>other_paths\<close> is \<open>None\<close> or a list.\<close>

fun PathNegatedPropertySet_hashable :: "PathNegatedPropertySet \<Rightarrow> bool" where
  "PathNegatedPropertySet_hashable (PathNegatedPropertySet first_path other_paths) =
     (case other_paths of None \<Rightarrow> True | Some ps \<Rightarrow> False)"

primrec SG_Path_hashable :: "SG_Path \<Rightarrow> bool"
  and PathAlternative_hashable :: "PathAlternative \<Rightarrow> bool"
  and PathSequence_hashable :: "PathSequence \<Rightarrow> bool"
  and PathEltOrInverse_hashable :: "PathEltOrInverse \<Rightarrow> bool"
  and PathElt_hashable :: "PathElt \<Rightarrow> bool"
  and PathPrimary_hashable :: "PathPrimary \<Rightarrow> bool"
where
  "SG_Path_hashable (SG_Path path_alternative) = PathAlternative_hashable path_alternative"
| "PathAlternative_hashable (PathAlternative sequence_paths) =
     list_all (\<lambda>b. b) (map PathSequence_hashable sequence_paths)"
| "PathSequence_hashable (PathSequence list_path_elt_or_inverse) =
     list_all (\<lambda>b. b) (map PathEltOrInverse_hashable list_path_elt_or_inverse)"
| "PathEltOrInverse_hashable (PathEltOrInverse path_elt is_inverse) = PathElt_hashable path_elt"
| "PathElt_hashable (PathElt path_primary path_mod) = PathPrimary_hashable path_primary"
| "PathPrimary_hashable (PathPrimary_iri i) = True"
| "PathPrimary_hashable (PathPrimary_VerbRDFType a) = True"
| "PathPrimary_hashable (PathPrimary_PathNegatedPropertySet n) = PathNegatedPropertySet_hashable n"
| "PathPrimary_hashable (PathPrimary_SG_Path p) = SG_Path_hashable p"

fun VerbPath_or_VerbSimple_hashable :: "VerbPath + VerbSimple \<Rightarrow> bool" where
  "VerbPath_or_VerbSimple_hashable (Inl (VerbPath path)) = SG_Path_hashable path"
| "VerbPath_or_VerbSimple_hashable (Inr (VerbSimple var)) = True"

text \<open>
  \<open>PropertyListPathNotEmpty.__hash__\<close> is \<open>hash((self.first_pair, self.other_pairs))\<close>:
  the first pair is a tuple, hashed component by component; \<open>other_pairs\<close> is \<open>None\<close>
  or a list.
\<close>

primrec PropertyListPathNotEmpty_hashable :: "PropertyListPathNotEmpty \<Rightarrow> bool"
  and ObjectListPath_hashable :: "ObjectListPath \<Rightarrow> bool"
  and ObjectPath_hashable :: "ObjectPath \<Rightarrow> bool"
  and GraphNodePath_hashable :: "GraphNodePath \<Rightarrow> bool"
  and TriplesNodePath_hashable :: "TriplesNodePath \<Rightarrow> bool"
  and CollectionPath_hashable :: "CollectionPath \<Rightarrow> bool"
  and BlankNodePropertyListPath_hashable :: "BlankNodePropertyListPath \<Rightarrow> bool"
where
  "PropertyListPathNotEmpty_hashable (PropertyListPathNotEmpty first_pair other_pairs) =
     ((case map_prod VerbPath_or_VerbSimple_hashable ObjectListPath_hashable first_pair of
         (verb_ok, objects_ok) \<Rightarrow> verb_ok \<and> objects_ok)
      \<and> (case other_pairs of None \<Rightarrow> True | Some ps \<Rightarrow> False))"
| "ObjectListPath_hashable (ObjectListPath object_paths) =
     list_all (\<lambda>b. b) (map ObjectPath_hashable object_paths)"
| "ObjectPath_hashable (ObjectPath graph_node_path) = GraphNodePath_hashable graph_node_path"
| "GraphNodePath_hashable (GraphNodePath_VarOrTerm v) = VarOrTerm_hashable v"
| "GraphNodePath_hashable (GraphNodePath_TriplesNodePath t) = TriplesNodePath_hashable t"
| "TriplesNodePath_hashable (TriplesNodePath_CollectionPath c) = CollectionPath_hashable c"
| "TriplesNodePath_hashable (TriplesNodePath_BlankNodePropertyListPath b) =
     BlankNodePropertyListPath_hashable b"
| "CollectionPath_hashable (CollectionPath graphnodepath_list) =
     list_all (\<lambda>b. b) (map GraphNodePath_hashable graphnodepath_list)"
| "BlankNodePropertyListPath_hashable (BlankNodePropertyListPath plpne) =
     PropertyListPathNotEmpty_hashable plpne"

text \<open>
  \<open>TriplesSameSubjectPath.__hash__\<close> is \<open>hash(self.content)\<close>, the hash of a pair; a
  \<open>PropertyListPath\<close> has no \<open>__hash__\<close>.
\<close>

fun TriplesSameSubjectPath_hashable :: "TriplesSameSubjectPath \<Rightarrow> bool" where
  "TriplesSameSubjectPath_hashable (TriplesSameSubjectPath_VarOrTerm content) =
     (VarOrTerm_hashable (fst content) \<and> PropertyListPathNotEmpty_hashable (snd content))"
| "TriplesSameSubjectPath_hashable (TriplesSameSubjectPath_TriplesNodePath content) =
     (TriplesNodePath_hashable (fst content) \<and> False)"

text \<open>
  \<open>list(set(triples))\<close>: every element is hashed; elements that are equal (the
  structural \<open>__eq__\<close> of the models) are kept once.  The order of the resulting list
  is that of the set's hash table; \<open>remdups\<close> fixes one order, and only properties
  that do not depend on the order are stated about it.
\<close>

definition deduplicate ::
  "TriplesSameSubjectPath list \<Rightarrow> error + TriplesSameSubjectPath list" where
  "deduplicate collected =
     (if list_all TriplesSameSubjectPath_hashable collected then Inr (remdups collected)
      else Inl TypeError)"

section \<open>Graph patterns\<close>

text \<open>
  \<open>TriplesBlock\<close>: \<open>triples: TriplesSameSubjectPath = None\<close>,
  \<open>triples_block: Optional[TriplesBlock] = None\<close>.  The default of \<open>triples\<close> is not
  validated, so the field is \<open>None\<close> when it is omitted.
\<close>

datatype TriplesBlock = TriplesBlock "TriplesSameSubjectPath option" "TriplesBlock option"

text \<open>
  \<^verbatim>\<open>
    def render(self):
        if isinstance(self.triples, list): ...
        else:
            yield from self.triples.render()
            if self.triples_block:
                yield " .\n"
                yield from self.triples_block.render()
                yield "\n"
  \<close>
  The field is never a list.  \<open>None.render()\<close> is an \<open>AttributeError\<close>.
\<close>

fun TriplesBlock_render :: "TriplesBlock \<Rightarrow> error + fragments" where
  "TriplesBlock_render (TriplesBlock tssp triples_block) =
     yields [(case tssp of
                None \<Rightarrow> Inl AttributeError
              | Some t \<Rightarrow> TriplesSameSubjectPath_render t),
             (case triples_block of
                None \<Rightarrow> yields []
              | Some tb \<Rightarrow> yields [lit '' .\<newline>'', TriplesBlock_render tb, lit ''\<newline>''])]"

text \<open>
  \<open>SPARQLGrammarBase.collect_triples\<close> walks the declared fields of the object:
  \<^verbatim>\<open>
    triples = []
    for attribute_name in self.model_fields:
        attribute_value = getattr(self, attribute_name)
        if isinstance(attribute_value, TriplesSameSubjectPath):
            triples.append(attribute_value)
        elif isinstance(attribute_value, list):
            for item in attribute_value:
                if isinstance(item, TriplesSameSubjectPath):
                    triples.append(item)
                elif isinstance(item, SPARQLGrammarBase):
                    triples.extend(item.collect_triples())
        elif isinstance(attribute_value, SPARQLGrammarBase):
            triples.extend(attribute_value.collect_triples())
    triples = list(set(triples))
    return triples
  \<close>
  It is written out below for each class by the fields the class declares.  For a
  \<open>TriplesBlock\<close>: the field \<open>triples\<close> is appended when it is a
  \<open>TriplesSameSubjectPath\<close> (not when it is \<open>None\<close>), the field \<open>triples_block\<close> is
  walked when it is a \<open>TriplesBlock\<close>.
\<close>

fun TriplesBlock_collect_triples :: "TriplesBlock \<Rightarrow> error + TriplesSameSubjectPath list" where
  "TriplesBlock_collect_triples (TriplesBlock tssp triples_block) =
     (case (case triples_block of
              None \<Rightarrow> Inr []
            | Some tb \<Rightarrow> TriplesBlock_collect_triples tb) of
        Inl e \<Rightarrow> Inl e
      | Inr nested \<Rightarrow>
          deduplicate ((case tssp of None \<Rightarrow> [] | Some t \<Rightarrow> [t]) @ nested))"

text \<open>
  The classes of the graph patterns.  \<open>GroupGraphPattern\<close> has
  \<open>content: SubSelect | GroupGraphPatternSub\<close>; \<open>GroupGraphPatternSub\<close> has
  \<open>triples_blocks: List[TriplesBlock]\<close> and
  \<open>graph_patterns_not_triples: Optional[List[GraphPatternNotTriples]] = None\<close>;
  \<open>GraphPatternNotTriples\<close> has
  \<open>content: GroupOrUnionGraphPattern | OptionalGraphPattern | Filter | Bind | InlineData\<close>.
  The class \<open>SubSelect\<close> is the type parameter \<open>'s\<close> and the classes \<open>Filter\<close>,
  \<open>Bind\<close> and \<open>InlineData\<close> together are the type parameter \<open>'o\<close>; the functions
  over graph patterns take their \<open>render\<close> and \<open>collect_triples\<close> as arguments.
\<close>

datatype ('s, 'o) GroupGraphPattern =
    GroupGraphPattern_SubSelect 's
  | GroupGraphPattern_GroupGraphPatternSub "('s, 'o) GroupGraphPatternSub"
  and ('s, 'o) GroupGraphPatternSub =
    GroupGraphPatternSub "TriplesBlock list" "('s, 'o) GraphPatternNotTriples list option"
  and ('s, 'o) GraphPatternNotTriples =
    GraphPatternNotTriples_GroupOrUnionGraphPattern "('s, 'o) GroupOrUnionGraphPattern"
  | GraphPatternNotTriples_OptionalGraphPattern "('s, 'o) OptionalGraphPattern"
  | GraphPatternNotTriples_other 'o
  and ('s, 'o) GroupOrUnionGraphPattern =
    GroupOrUnionGraphPattern "('s, 'o) GroupGraphPattern list"
  and ('s, 'o) OptionalGraphPattern =
    OptionalGraphPattern "('s, 'o) GroupGraphPattern"

text \<open>\<open>len(x)\<close> of an optional list: \<open>len(None)\<close> is a \<open>TypeError\<close>.\<close>

definition py_len :: "'a list option \<Rightarrow> error + nat" where
  "py_len xs = (case xs of None \<Rightarrow> Inl TypeError | Some l \<Rightarrow> Inr (length l))"

text \<open>
  An exception that leaves a pydantic validator: \<open>ValueError\<close> and \<open>AssertionError\<close>
  become a \<open>ValidationError\<close>, any other exception propagates as it is.
\<close>

fun from_validator :: "error \<Rightarrow> error" where
  "from_validator ValueError = ValidationError"
| "from_validator AssertionError = ValidationError"
| "from_validator e = e"

text \<open>
  \<^verbatim>\<open>
    @model_validator(mode="after")
    def validate_blocks_and_patterns(self):
        tb_len = len(self.triples_blocks)
        gpnt_len = len(self.graph_patterns_not_triples)
        if tb_len < 1:
            raise ValueError("There must be at least one TriplesBlock")
        if tb_len > 1 and gpnt_len < tb_len - 1:
            raise ValueError("When there is more than one TriplesBlock ...")
        return self
  \<close>
  \<open>Quads.validate_templates_and_quads\<close> is the same function on the fields
  \<open>triples_templates\<close> and \<open>quads_not_triples\<close>.
\<close>

definition validate_paired :: "'a list \<Rightarrow> 'b list option \<Rightarrow> error + unit" where
  "validate_paired primary secondary =
     (let tb_len = length primary in
      case py_len secondary of
        Inl e \<Rightarrow> Inl e
      | Inr gpnt_len \<Rightarrow>
          if tb_len < 1 then Inl ValueError
          else if tb_len > 1 \<and> gpnt_len < tb_len - 1 then Inl ValueError
          else Inr ())"

text \<open>
  The constructor \<open>GroupGraphPatternSub(triples_blocks=..., graph_patterns_not_triples=...)\<close>;
  an omitted \<open>graph_patterns_not_triples\<close> is the default \<open>None\<close>.  The fields of the
  class reach \<open>AdditiveExpression\<close> (a \<open>GraphPatternNotTriples\<close> may hold a \<open>Filter\<close>),
  so the schema is built before the validator runs.
\<close>

definition GroupGraphPatternSub_new ::
  "TriplesBlock list \<Rightarrow> ('s, 'o) GraphPatternNotTriples list option \<Rightarrow>
   error + ('s, 'o) GroupGraphPatternSub" where
  "GroupGraphPatternSub_new triples_blocks graph_patterns_not_triples =
     (case expression_schema of
        Inl e \<Rightarrow> Inl e
      | Inr built \<Rightarrow>
          (case validate_paired triples_blocks graph_patterns_not_triples of
             Inl e \<Rightarrow> Inl (from_validator e)
           | Inr u \<Rightarrow> Inr (GroupGraphPatternSub triples_blocks graph_patterns_not_triples)))"

text \<open>
  \<open>GroupOrUnionGraphPattern.render\<close> as the sequence of its \<open>yield\<close> and \<open>yield from\<close>
  statements:
  \<^verbatim>\<open>
    ggps_iter = iter(self.group_graph_patterns)
    first_ggp = next(ggps_iter)
    yield "\n"
    yield from first_ggp.render()
    for ggp in ggps_iter:  # UNION goes between 2:N group graph patterns
        yield "\nUNION\n"
        yield from ggp.render()
  \<close>
\<close>

datatype 'a step = Yield string | YieldFrom 'a

definition GroupOrUnionGraphPattern_steps :: "'a list \<Rightarrow> error + 'a step list" where
  "GroupOrUnionGraphPattern_steps group_graph_patterns =
     (case group_graph_patterns of
        [] \<Rightarrow> Inl RuntimeError
      | first_ggp # rest \<Rightarrow>
          Inr ([Yield ''\<newline>'', YieldFrom first_ggp]
               @ concat (map (\<lambda>ggp. [Yield ''\<newline>UNION\<newline>'', YieldFrom ggp]) rest)))"

text \<open>Running the statements, given the rendering of what each \<open>yield from\<close> delegates to.\<close>

fun run_step :: "('a \<Rightarrow> error + fragments) \<Rightarrow> 'a step \<Rightarrow> error + fragments" where
  "run_step r (Yield s) = lit s"
| "run_step r (YieldFrom a) = r a"

definition run_steps ::
  "('a \<Rightarrow> error + fragments) \<Rightarrow> error + 'a step list \<Rightarrow> error + fragments" where
  "run_steps r body =
     (case body of Inl e \<Rightarrow> Inl e | Inr steps \<Rightarrow> yields (map (run_step r) steps))"

text \<open>
  \<open>GroupGraphPatternSub.render\<close>, applied to the renderings of the blocks and patterns:
  \<^verbatim>\<open>
    if self.triples_blocks:
        yield from self.triples_blocks[0].render()
    if self.graph_patterns_not_triples:
        for i in range(len(self.graph_patterns_not_triples)):
            yield from self.graph_patterns_not_triples[i].render()
            yield " ."
            if i + 1 < len(self.triples_blocks):
                yield from self.triples_blocks[i + 1].render()
  \<close>
\<close>

definition blocks_and_patterns_render ::
  "(error + fragments) list \<Rightarrow> (error + fragments) list option \<Rightarrow> error + fragments" where
  "blocks_and_patterns_render tbs gpnts =
     yields ((case tbs of [] \<Rightarrow> [] | first # rest \<Rightarrow> [first])
       @ (case gpnts of
            None \<Rightarrow> []
          | Some gs \<Rightarrow>
              concat (map (\<lambda>i. [gs ! i, lit '' .'']
                                @ (if i + 1 < length tbs then [tbs ! (i + 1)] else []))
                          [0..<length gs])))"

text \<open>
  The \<open>render\<close> methods.  The \<open>def render\<close> that follows the class
  \<open>GraphPatternNotTriples\<close> in the source is not indented: it is a function of the
  module, and the class inherits \<open>SPARQLGrammarBase.render\<close>, which raises
  \<open>NotImplementedError\<close>.
\<close>

primrec GroupGraphPattern_render ::
    "('s \<Rightarrow> error + fragments) \<Rightarrow> ('o \<Rightarrow> error + fragments) \<Rightarrow>
     ('s, 'o) GroupGraphPattern \<Rightarrow> error + fragments"
  and GroupGraphPatternSub_render ::
    "('s \<Rightarrow> error + fragments) \<Rightarrow> ('o \<Rightarrow> error + fragments) \<Rightarrow>
     ('s, 'o) GroupGraphPatternSub \<Rightarrow> error + fragments"
  and GraphPatternNotTriples_render ::
    "('s \<Rightarrow> error + fragments) \<Rightarrow> ('o \<Rightarrow> error + fragments) \<Rightarrow>
     ('s, 'o) GraphPatternNotTriples \<Rightarrow> error + fragments"
  and GroupOrUnionGraphPattern_render ::
    "('s \<Rightarrow> error + fragments) \<Rightarrow> ('o \<Rightarrow> error + fragments) \<Rightarrow>
     ('s, 'o) GroupOrUnionGraphPattern \<Rightarrow> error + fragments"
  and OptionalGraphPattern_render ::
    "('s \<Rightarrow> error + fragments) \<Rightarrow> ('o \<Rightarrow> error + fragments) \<Rightarrow>
     ('s, 'o) OptionalGraphPattern \<Rightarrow> error + fragments"
where
  "GroupGraphPattern_render rs ro (GroupGraphPattern_SubSelect sub_select) =
     yields [lit ''{\<newline>'', rs sub_select, lit ''\<newline>}'']"
| "GroupGraphPattern_render rs ro (GroupGraphPattern_GroupGraphPatternSub sub) =
     yields [lit ''{\<newline>'', GroupGraphPatternSub_render rs ro sub, lit ''\<newline>}'']"
| "GroupGraphPatternSub_render rs ro (GroupGraphPatternSub triples_blocks gpnts) =
     blocks_and_patterns_render
       (map TriplesBlock_render triples_blocks)
       (map_option (map (GraphPatternNotTriples_render rs ro)) gpnts)"
| "GraphPatternNotTriples_render rs ro (GraphPatternNotTriples_GroupOrUnionGraphPattern g) =
     Inl NotImplementedError"
| "GraphPatternNotTriples_render rs ro (GraphPatternNotTriples_OptionalGraphPattern g) =
     Inl NotImplementedError"
| "GraphPatternNotTriples_render rs ro (GraphPatternNotTriples_other x) =
     Inl NotImplementedError"
| "GroupOrUnionGraphPattern_render rs ro (GroupOrUnionGraphPattern group_graph_patterns) =
     run_steps (\<lambda>r. r)
       (GroupOrUnionGraphPattern_steps (map (GroupGraphPattern_render rs ro) group_graph_patterns))"
| "OptionalGraphPattern_render rs ro (OptionalGraphPattern group_graph_pattern) =
     yields [lit ''\<newline>OPTIONAL '', GroupGraphPattern_render rs ro group_graph_pattern]"

text \<open>
  \<open>collect_triples\<close> on the graph patterns.  \<open>GroupGraphPatternSub\<close> derives from
  \<open>BaseModel\<close>, not from \<open>SPARQLGrammarBase\<close>: it has no \<open>collect_triples\<close> method, and
  as the \<open>content\<close> of a \<open>GroupGraphPattern\<close> it is neither a
  \<open>TriplesSameSubjectPath\<close>, nor a list, nor a \<open>SPARQLGrammarBase\<close>, so the walk passes
  over it.  The other classes derive from \<open>SPARQLGrammarBase\<close>.
\<close>

definition extend_all ::
  "(error + TriplesSameSubjectPath list) list \<Rightarrow> error + TriplesSameSubjectPath list" where
  "extend_all collected =
     foldr (\<lambda>r acc. case r of
                       Inl e \<Rightarrow> Inl e
                     | Inr xs \<Rightarrow> (case acc of Inl e \<Rightarrow> Inl e | Inr ys \<Rightarrow> Inr (xs @ ys)))
           collected (Inr [])"

definition then_deduplicate ::
  "error + TriplesSameSubjectPath list \<Rightarrow> error + TriplesSameSubjectPath list" where
  "then_deduplicate collected =
     (case collected of Inl e \<Rightarrow> Inl e | Inr xs \<Rightarrow> deduplicate xs)"

primrec GroupGraphPattern_collect_triples ::
    "('s \<Rightarrow> error + TriplesSameSubjectPath list) \<Rightarrow>
     ('o \<Rightarrow> error + TriplesSameSubjectPath list) \<Rightarrow>
     ('s, 'o) GroupGraphPattern \<Rightarrow> error + TriplesSameSubjectPath list"
  and GroupGraphPatternSub_collect_triples ::
    "('s \<Rightarrow> error + TriplesSameSubjectPath list) \<Rightarrow>
     ('o \<Rightarrow> error + TriplesSameSubjectPath list) \<Rightarrow>
     ('s, 'o) GroupGraphPatternSub \<Rightarrow> error + TriplesSameSubjectPath list"
  and GraphPatternNotTriples_collect_triples ::
    "('s \<Rightarrow> error + TriplesSameSubjectPath list) \<Rightarrow>
     ('o \<Rightarrow> error + TriplesSameSubjectPath list) \<Rightarrow>
     ('s, 'o) GraphPatternNotTriples \<Rightarrow> error + TriplesSameSubjectPath list"
  and GroupOrUnionGraphPattern_collect_triples ::
    "('s \<Rightarrow> error + TriplesSameSubjectPath list) \<Rightarrow>
     ('o \<Rightarrow> error + TriplesSameSubjectPath list) \<Rightarrow>
     ('s, 'o) GroupOrUnionGraphPattern \<Rightarrow> error + TriplesSameSubjectPath list"
  and OptionalGraphPattern_collect_triples ::
    "('s \<Rightarrow> error + TriplesSameSubjectPath list) \<Rightarrow>
     ('o \<Rightarrow> error + TriplesSameSubjectPath list) \<Rightarrow>
     ('s, 'o) OptionalGraphPattern \<Rightarrow> error + TriplesSameSubjectPath list"
where
  "GroupGraphPattern_collect_triples cs co (GroupGraphPattern_SubSelect sub_select) =
     then_deduplicate (cs sub_select)"
| "GroupGraphPattern_collect_triples cs co (GroupGraphPattern_GroupGraphPatternSub sub) =
     then_deduplicate (Inr [])"
| "GroupGraphPatternSub_collect_triples cs co (GroupGraphPatternSub triples_blocks gpnts) =
     Inl AttributeError"
| "GraphPatternNotTriples_collect_triples cs co
       (GraphPatternNotTriples_GroupOrUnionGraphPattern g) =
     then_deduplicate (GroupOrUnionGraphPattern_collect_triples cs co g)"
| "GraphPatternNotTriples_collect_triples cs co
       (GraphPatternNotTriples_OptionalGraphPattern g) =
     then_deduplicate (OptionalGraphPattern_collect_triples cs co g)"
| "GraphPatternNotTriples_collect_triples cs co (GraphPatternNotTriples_other x) =
     then_deduplicate (co x)"
| "GroupOrUnionGraphPattern_collect_triples cs co
       (GroupOrUnionGraphPattern group_graph_patterns) =
     then_deduplicate
       (extend_all (map (GroupGraphPattern_collect_triples cs co) group_graph_patterns))"
| "OptionalGraphPattern_collect_triples cs co (OptionalGraphPattern group_graph_pattern) =
     then_deduplicate (GroupGraphPattern_collect_triples cs co group_graph_pattern)"

section \<open>Quads\<close>

text \<open>
  \<open>TriplesTemplate\<close>: \<open>triples_same_subject: TriplesSameSubject\<close>,
  \<open>triples_template: Optional[TriplesTemplate] = None\<close>.
  \<open>QuadsNotTriples\<close>: \<open>var_or_iri: VarOrIri\<close>,
  \<open>triples_template: Optional[TriplesTemplate] = None\<close>.
  \<open>Quads\<close>: \<open>triples_templates: List[TriplesTemplate]\<close>,
  \<open>quads_not_triples: Optional[List[QuadsNotTriples]] = None\<close>.
\<close>

datatype TriplesTemplate = TriplesTemplate TriplesSameSubject "TriplesTemplate option"

datatype QuadsNotTriples = QuadsNotTriples VarOrIri "TriplesTemplate option"

datatype Quads = Quads "TriplesTemplate list" "QuadsNotTriples list option"

definition Quads_new ::
  "TriplesTemplate list \<Rightarrow> QuadsNotTriples list option \<Rightarrow> error + Quads" where
  "Quads_new triples_templates quads_not_triples =
     (case validate_paired triples_templates quads_not_triples of
        Inl e \<Rightarrow> Inl (from_validator e)
      | Inr u \<Rightarrow> Inr (Quads triples_templates quads_not_triples))"

section \<open>Expressions and filters\<close>

text \<open>
  The chain of classes from \<open>Expression\<close> down to \<open>UnaryExpression\<close>.  The class
  \<open>PrimaryExpression\<close> is the type parameter \<open>'pe\<close>, rendered by the argument \<open>rp\<close>.
  The elements of \<open>AdditiveExpression.additional_expressions\<close> are the type parameter
  \<open>'x\<close> (their annotation cannot be evaluated), and what the loop of
  \<open>AdditiveExpression.render\<close> yields for one element is the argument \<open>rx\<close>.  Both
  lists of additional expressions have the default \<open>[]\<close>.
\<close>

datatype UnaryOperator = NOT | PLUS | MINUS

fun UnaryOperator_value :: "UnaryOperator \<Rightarrow> string" where
  "UnaryOperator_value NOT = ''!''"
| "UnaryOperator_value PLUS = ''+''"
| "UnaryOperator_value MINUS = ''-''"

datatype 'pe UnaryExpression = UnaryExpression "UnaryOperator option" 'pe

fun UnaryExpression_render ::
  "('pe \<Rightarrow> error + fragments) \<Rightarrow> 'pe UnaryExpression \<Rightarrow> error + fragments" where
  "UnaryExpression_render rp (UnaryExpression operator primary_expression) =
     yields [(case operator of
                Some op \<Rightarrow> yields [lit (UnaryOperator_value op), lit '' '']
              | None \<Rightarrow> yields []),
             rp primary_expression]"

datatype MultiplacativeOperator = MULTIPLY | DIVIDE

fun MultiplacativeOperator_value :: "MultiplacativeOperator \<Rightarrow> string" where
  "MultiplacativeOperator_value MULTIPLY = ''*''"
| "MultiplacativeOperator_value DIVIDE = ''/''"

datatype 'pe MultiplicativeExpression =
  MultiplicativeExpression
    "'pe UnaryExpression"
    "(MultiplacativeOperator \<times> 'pe UnaryExpression) list option"

text \<open>Iterating over \<open>None\<close> is a \<open>TypeError\<close>.\<close>

fun MultiplicativeExpression_render ::
  "('pe \<Rightarrow> error + fragments) \<Rightarrow> 'pe MultiplicativeExpression \<Rightarrow> error + fragments" where
  "MultiplicativeExpression_render rp
       (MultiplicativeExpression base_expression additional_expressions) =
     yields (UnaryExpression_render rp base_expression
       # (case additional_expressions of
            None \<Rightarrow> [Inl TypeError]
          | Some xs \<Rightarrow>
              concat (map (\<lambda>(operator, expression).
                             [lit ('' '' @ MultiplacativeOperator_value operator @ '' ''),
                              UnaryExpression_render rp expression]) xs)))"

datatype ('pe, 'x) AdditiveExpression =
  AdditiveExpression "'pe MultiplicativeExpression" "'x list option"

fun AdditiveExpression_render ::
  "('pe \<Rightarrow> error + fragments) \<Rightarrow> ('x \<Rightarrow> error + fragments) \<Rightarrow>
   ('pe, 'x) AdditiveExpression \<Rightarrow> error + fragments" where
  "AdditiveExpression_render rp rx (AdditiveExpression base_expression additional_expressions) =
     yields (MultiplicativeExpression_render rp base_expression
       # (case additional_expressions of
            None \<Rightarrow> [Inl TypeError]
          | Some xs \<Rightarrow> map rx xs))"

datatype ('pe, 'x) NumericExpression = NumericExpression "('pe, 'x) AdditiveExpression"

fun NumericExpression_render ::
  "('pe \<Rightarrow> error + fragments) \<Rightarrow> ('x \<Rightarrow> error + fragments) \<Rightarrow>
   ('pe, 'x) NumericExpression \<Rightarrow> error + fragments" where
  "NumericExpression_render rp rx (NumericExpression additive_expression) =
     AdditiveExpression_render rp rx additive_expression"

text \<open>
  \<open>RelationalExpression\<close>: \<open>left: NumericExpression\<close>, \<open>operator: Optional[str] = None\<close>,
  \<open>right: Optional[NumericExpression | ExpressionList] = None\<close>.
  \<open>ExpressionList\<close>: \<open>expressions: Optional[List[Expression]] = []\<close>.
\<close>

datatype ('pe, 'x) Expression = Expression "('pe, 'x) ConditionalOrExpression"
  and ('pe, 'x) ConditionalOrExpression =
    ConditionalOrExpression "('pe, 'x) ConditionalAndExpression list"
  and ('pe, 'x) ConditionalAndExpression =
    ConditionalAndExpression "('pe, 'x) ValueLogical list"
  and ('pe, 'x) ValueLogical = ValueLogical "('pe, 'x) RelationalExpression"
  and ('pe, 'x) RelationalExpression =
    RelationalExpression
      "('pe, 'x) NumericExpression"
      "string option"
      "(('pe, 'x) NumericExpression + ('pe, 'x) ExpressionList) option"
  and ('pe, 'x) ExpressionList = ExpressionList "('pe, 'x) Expression list option"

text \<open>
  The loop shared by \<open>ConditionalOrExpression\<close>, \<open>ConditionalAndExpression\<close> and
  \<open>ExpressionList\<close>, applied to the renderings of the items:
  \<^verbatim>\<open>
    for i, item in enumerate(items):
        yield from item.render()
        if i < len(items) - 1:
            yield sep
  \<close>
\<close>

definition enumerate_sep :: "string \<Rightarrow> (error + fragments) list \<Rightarrow> error + fragments" where
  "enumerate_sep sep rs =
     yields (concat (map (\<lambda>i. rs ! i # (if int i < int (length rs) - 1 then [lit sep] else []))
                         [0..<length rs]))"

text \<open>
  \<^verbatim>\<open>
    # RelationalExpression
    yield from self.left.render()
    if self.operator:
        yield f" {self.operator} "
        if self.right:
            yield from self.right.render()
    # ExpressionList
    if not self.expressions:
        yield "()"
    else:
        yield "("
        ... the loop above with ", " ...
        yield ")"
  \<close>
  A string is true when it is not empty, a list when it is not empty, a node always.
\<close>

definition relational_render ::
  "error + fragments \<Rightarrow> string option \<Rightarrow> ((error + fragments) + (error + fragments)) option \<Rightarrow>
   error + fragments" where
  "relational_render left operator right =
     yields [left,
       (case operator of
          None \<Rightarrow> yields []
        | Some op \<Rightarrow>
            if op = [] then yields []
            else yields [lit ('' '' @ op @ '' ''),
                   (case right of
                      None \<Rightarrow> yields []
                    | Some (Inl r) \<Rightarrow> r
                    | Some (Inr r) \<Rightarrow> r)])]"

definition expression_list_render :: "(error + fragments) list option \<Rightarrow> error + fragments" where
  "expression_list_render expressions =
     (case expressions of
        None \<Rightarrow> lit ''()''
      | Some [] \<Rightarrow> lit ''()''
      | Some (e # es) \<Rightarrow> yields [lit ''('', enumerate_sep '', '' (e # es), lit '')''])"

primrec Expression_render ::
    "('pe \<Rightarrow> error + fragments) \<Rightarrow> ('x \<Rightarrow> error + fragments) \<Rightarrow>
     ('pe, 'x) Expression \<Rightarrow> error + fragments"
  and ConditionalOrExpression_render ::
    "('pe \<Rightarrow> error + fragments) \<Rightarrow> ('x \<Rightarrow> error + fragments) \<Rightarrow>
     ('pe, 'x) ConditionalOrExpression \<Rightarrow> error + fragments"
  and ConditionalAndExpression_render ::
    "('pe \<Rightarrow> error + fragments) \<Rightarrow> ('x \<Rightarrow> error + fragments) \<Rightarrow>
     ('pe, 'x) ConditionalAndExpression \<Rightarrow> error + fragments"
  and ValueLogical_render ::
    "('pe \<Rightarrow> error + fragments) \<Rightarrow> ('x \<Rightarrow> error + fragments) \<Rightarrow>
     ('pe, 'x) ValueLogical \<Rightarrow> error + fragments"
  and RelationalExpression_render ::
    "('pe \<Rightarrow> error + fragments) \<Rightarrow> ('x \<Rightarrow> error + fragments) \<Rightarrow>
     ('pe, 'x) RelationalExpression \<Rightarrow> error + fragments"
  and ExpressionList_render ::
    "('pe \<Rightarrow> error + fragments) \<Rightarrow> ('x \<Rightarrow> error + fragments) \<Rightarrow>
     ('pe, 'x) ExpressionList \<Rightarrow> error + fragments"
where
  "Expression_render rp rx (Expression conditional_or_expression) =
     ConditionalOrExpression_render rp rx conditional_or_expression"
| "ConditionalOrExpression_render rp rx (ConditionalOrExpression conditional_and_expressions) =
     enumerate_sep '' || '' (map (ConditionalAndExpression_render rp rx) conditional_and_expressions)"
| "ConditionalAndExpression_render rp rx (ConditionalAndExpression value_logicals) =
     enumerate_sep '' && '' (map (ValueLogical_render rp rx) value_logicals)"
| "ValueLogical_render rp rx (ValueLogical relational_expression) =
     RelationalExpression_render rp rx relational_expression"
| "RelationalExpression_render rp rx (RelationalExpression left operator right) =
     relational_render (NumericExpression_render rp rx left) operator
       (map_option (map_sum (NumericExpression_render rp rx) (ExpressionList_render rp rx)) right)"
| "ExpressionList_render rp rx (ExpressionList expressions) =
     expression_list_render (map_option (map (Expression_render rp rx)) expressions)"

text \<open>
  \<open>BrackettedExpression\<close>, \<open>Constraint\<close> with
  \<open>content: BrackettedExpression | BuiltInCall | FunctionCall\<close>, and \<open>Filter\<close>.  The
  classes \<open>BuiltInCall\<close> and \<open>FunctionCall\<close> together are the type parameter \<open>'c\<close>,
  rendered by the argument \<open>rc\<close>.
\<close>

datatype ('pe, 'x) BrackettedExpression = BrackettedExpression "('pe, 'x) Expression"

fun BrackettedExpression_render ::
  "('pe \<Rightarrow> error + fragments) \<Rightarrow> ('x \<Rightarrow> error + fragments) \<Rightarrow>
   ('pe, 'x) BrackettedExpression \<Rightarrow> error + fragments" where
  "BrackettedExpression_render rp rx (BrackettedExpression expression) =
     yields [lit ''('', Expression_render rp rx expression, lit '')'']"

datatype ('pe, 'x, 'c) Constraint =
    Constraint_BrackettedExpression "('pe, 'x) BrackettedExpression"
  | Constraint_other 'c

fun Constraint_render ::
  "('pe \<Rightarrow> error + fragments) \<Rightarrow> ('x \<Rightarrow> error + fragments) \<Rightarrow> ('c \<Rightarrow> error + fragments) \<Rightarrow>
   ('pe, 'x, 'c) Constraint \<Rightarrow> error + fragments" where
  "Constraint_render rp rx rc (Constraint_BrackettedExpression b) =
     BrackettedExpression_render rp rx b"
| "Constraint_render rp rx rc (Constraint_other c) = rc c"

datatype ('pe, 'x, 'c) Filter = Filter "('pe, 'x, 'c) Constraint"

fun Filter_render ::
  "('pe \<Rightarrow> error + fragments) \<Rightarrow> ('x \<Rightarrow> error + fragments) \<Rightarrow> ('c \<Rightarrow> error + fragments) \<Rightarrow>
   ('pe, 'x, 'c) Filter \<Rightarrow> error + fragments" where
  "Filter_render rp rx rc (Filter constraint) =
     yields [lit ''FILTER '', Constraint_render rp rx rc constraint]"

text \<open>
  The wrapping of a primary expression that \<open>filter_relational\<close> and
  \<open>Expression.from_primary_expression\<close> build:
  \<open>NumericExpression(additive_expression=AdditiveExpression(base_expression=
  MultiplicativeExpression(base_expression=UnaryExpression(primary_expression=...))))\<close>.
  The innermost constructor is called first.
\<close>

definition numeric_of_primary :: "'pe \<Rightarrow> error + ('pe, 'x) NumericExpression" where
  "numeric_of_primary primary_expression =
     and_then (constructed (UnaryExpression None primary_expression)) (\<lambda>unary.
     and_then (constructed (MultiplicativeExpression unary (Some []))) (\<lambda>multiplicative.
     and_then (constructed (AdditiveExpression multiplicative (Some []))) (\<lambda>additive.
     constructed (NumericExpression additive))))"

text \<open>
  \<open>Expression.from_primary_expression(primary_expression)\<close>:
  \<^verbatim>\<open>
    return cls(conditional_or_expression=ConditionalOrExpression(
        conditional_and_expressions=[ConditionalAndExpression(value_logicals=[
            ValueLogical(relational_expression=RelationalExpression(
                left=NumericExpression(...primary_expression...)))])]))
  \<close>
\<close>

definition from_primary_expression :: "'pe \<Rightarrow> error + ('pe, 'x) Expression" where
  "from_primary_expression primary_expression =
     and_then (numeric_of_primary primary_expression) (\<lambda>left.
     and_then (constructed (RelationalExpression left None None)) (\<lambda>relational.
     and_then (constructed (ValueLogical relational)) (\<lambda>value_logical.
     and_then (constructed (ConditionalAndExpression [value_logical])) (\<lambda>conditional_and.
     and_then (constructed (ConditionalOrExpression [conditional_and])) (\<lambda>conditional_or.
     constructed (Expression conditional_or))))))"

text \<open>
  \<open>Filter.filter_relational(focus, comparators, operator)\<close>, with
  \<open>comparators: PrimaryExpression | List[PrimaryExpression]\<close> (\<open>Inl\<close> a single primary
  expression, \<open>Inr\<close> a list):
  \<^verbatim>\<open>
    numeric_left = NumericExpression(...focus...)
    if isinstance(comparators, PrimaryExpression):
        assert operator not in ["IN", "NOT IN"], \
            "an ExpressionList must be supplied for 'IN' or 'NOT IN'"
        expression_rhs = NumericExpression(...comparators...)
    else:  # for operators 'IN' and 'NOT IN'
        assert operator in ["IN", "NOT IN"]
        comparator_exprs = [Expression.from_primary_expression(comp) for comp in comparators]
        expression_rhs = ExpressionList(expressions=comparator_exprs)
    relational_expr = RelationalExpression(left=numeric_left, operator=operator,
                                           right=expression_rhs)
    value_logical = ValueLogical(relational_expression=relational_expr)
    conditional_and_expr = ConditionalAndExpression(value_logicals=[value_logical])
    conditional_or_expr = ConditionalOrExpression(
        conditional_and_expressions=[conditional_and_expr])
    expression = Expression(conditional_or_expression=conditional_or_expr)
    bracketted_expr = BrackettedExpression(expression=expression)
    return cls(constraint=Constraint(content=bracketted_expr))
  \<close>
\<close>

definition filter_relational_rhs ::
  "'pe + 'pe list \<Rightarrow> string \<Rightarrow>
   error + (('pe, 'x) NumericExpression + ('pe, 'x) ExpressionList)" where
  "filter_relational_rhs comparators operator =
     (case comparators of
        Inl comparator \<Rightarrow>
          if operator \<in> set [''IN'', ''NOT IN''] then Inl AssertionError
          else and_then (numeric_of_primary comparator) (\<lambda>numeric. Inr (Inl numeric))
      | Inr comparator_list \<Rightarrow>
          if operator \<notin> set [''IN'', ''NOT IN''] then Inl AssertionError
          else and_then (all_built (map from_primary_expression comparator_list))
                 (\<lambda>comparator_exprs.
               and_then (constructed (ExpressionList (Some comparator_exprs)))
                 (\<lambda>expression_list. Inr (Inr expression_list))))"

definition filter_relational ::
  "'pe \<Rightarrow> 'pe + 'pe list \<Rightarrow> string \<Rightarrow> error + ('pe, 'x, 'c) Filter" where
  "filter_relational focus comparators operator =
     and_then (numeric_of_primary focus) (\<lambda>numeric_left.
     and_then (filter_relational_rhs comparators operator) (\<lambda>expression_rhs.
     and_then (constructed
                 (RelationalExpression numeric_left (Some operator) (Some expression_rhs)))
       (\<lambda>relational_expr.
     and_then (constructed (ValueLogical relational_expr)) (\<lambda>value_logical.
     and_then (constructed (ConditionalAndExpression [value_logical])) (\<lambda>conditional_and_expr.
     and_then (constructed (ConditionalOrExpression [conditional_and_expr]))
       (\<lambda>conditional_or_expr.
     and_then (constructed (Expression conditional_or_expr)) (\<lambda>expression.
     and_then (constructed (BrackettedExpression expression)) (\<lambda>bracketted_expr.
     and_then (constructed (Constraint_BrackettedExpression bracketted_expr)) (\<lambda>constraint.
     constructed (Filter constraint))))))))))"

section \<open>Construct triples and their merge\<close>

text \<open>
  \<open>ConstructTriples\<close>: \<open>triples: TriplesSameSubject\<close>,
  \<open>construct_triples: Optional[ConstructTriples] = None\<close>.  \<open>merge_ct\<close> assigns to the
  field \<open>construct_triples\<close> of objects it was given, so the objects live in a store:
  a reference is an address, and the field \<open>construct_triples\<close> holds a reference.
\<close>

type_synonym ref = nat

record ConstructTriples =
  triples :: TriplesSameSubject
  construct_triples :: "ref option"

type_synonym store = "ref \<Rightarrow> ConstructTriples"

text \<open>
  The inner loop of \<open>merge_ct\<close>:
  \<^verbatim>\<open>
    while current_ct.construct_triples is not None:
        current_ct = current_ct.construct_triples
  \<close>
  It does not end on a chain that runs into a cycle; \<open>None\<close> is the loop that does not
  return.
\<close>

partial_function (option) last_of_chain :: "store \<Rightarrow> ref \<Rightarrow> ref option" where
  "last_of_chain h current_ct =
     (case construct_triples (h current_ct) of
        None \<Rightarrow> Some current_ct
      | Some nested \<Rightarrow> last_of_chain h nested)"

text \<open>
  The outer loop:
  \<^verbatim>\<open>
    for next_ct in ct_iter:
        ... the inner loop ...
        current_ct.construct_triples = next_ct
        current_ct = next_ct
  \<close>
\<close>

fun merge_ct_loop :: "store \<Rightarrow> ref \<Rightarrow> ref list \<Rightarrow> store option" where
  "merge_ct_loop h current_ct [] = Some h"
| "merge_ct_loop h current_ct (next_ct # rest) =
     (case last_of_chain h current_ct of
        None \<Rightarrow> None
      | Some l \<Rightarrow>
          merge_ct_loop (h(l := (h l)\<lparr>construct_triples := Some next_ct\<rparr>)) next_ct rest)"

text \<open>
  \<open>ConstructTriples.merge_ct(ct_list)\<close>: the store after the call and the returned
  reference (\<open>None\<close> for the empty list), or \<open>None\<close> when the call does not return.
  \<^verbatim>\<open>
    ct_iter = iter(ct_list)
    try:
        first_ct = next(ct_iter)
    except StopIteration:
        return None
    current_ct = first_ct
    ... the outer loop ...
    return first_ct
  \<close>
\<close>

definition merge_ct :: "store \<Rightarrow> ref list \<Rightarrow> (store \<times> ref option) option" where
  "merge_ct h ct_list =
     (case ct_list of
        [] \<Rightarrow> Some (h, None)
      | first_ct # rest \<Rightarrow>
          (case merge_ct_loop h first_ct rest of
             None \<Rightarrow> None
           | Some h' \<Rightarrow> Some (h', Some first_ct)))"

section \<open>Aggregates\<close>

datatype AggregateOptions = COUNT | SUM | MIN | MAX | AVG | SAMPLE | GROUP_CONCAT

datatype Wildcard = WILDCARD

text \<open>
  \<open>Aggregate\<close>: \<open>function_name: AggregateOptions\<close>, \<open>distinct: Optional[bool] = None\<close>,
  \<open>expression: Expression | Wildcard\<close>, \<open>separator: Optional[str] = None\<close>.  The class
  \<open>Expression\<close> is the type parameter \<open>'e\<close>.
\<close>

datatype 'e Aggregate =
  Aggregate AggregateOptions "bool option" "'e + Wildcard" "string option"

text \<open>
  Both field validators read \<open>cls.function_name\<close>, an attribute of the class, not of
  the object under construction.  The class body assigns no such attribute, and the
  lookup raises \<open>AttributeError\<close>.
\<close>

definition cls_function_name :: "error + AggregateOptions" where
  "cls_function_name = Inl AttributeError"

text \<open>A member of the plain \<open>Enum\<close> \<open>AggregateOptions\<close> is never equal to a \<open>str\<close>.\<close>

definition enum_ne_str :: "AggregateOptions \<Rightarrow> string \<Rightarrow> bool" where
  "enum_ne_str member s = True"

text \<open>
  \<^verbatim>\<open>
    @field_validator("expression")
    def validate_expression(cls, v):
        if isinstance(v, Wildcard) and cls.function_name != "COUNT":
            raise ValueError("'*' can only be used for COUNT")
        return v
  \<close>
\<close>

definition validate_expression :: "'e + Wildcard \<Rightarrow> error + ('e + Wildcard)" where
  "validate_expression v =
     (case v of
        Inl expression \<Rightarrow> Inr v
      | Inr wildcard \<Rightarrow>
          and_then cls_function_name (\<lambda>member.
            if enum_ne_str member ''COUNT'' then Inl ValueError else Inr v))"

text \<open>
  \<^verbatim>\<open>
    @field_validator("separator")
    def validate_separator(cls, v):
        if cls.function_name != "GROUP_CONCAT":
            raise ValueError("'SEPARATOR' can only be used for GROUP_CONCAT")
        return v
  \<close>
\<close>

definition validate_separator :: "string option \<Rightarrow> error + string option" where
  "validate_separator v =
     and_then cls_function_name (\<lambda>member.
       if enum_ne_str member ''GROUP_CONCAT'' then Inl ValueError else Inr v)"

text \<open>
  A keyword argument of a constructor is given or left out; the validator of a field
  runs only when the field is given.
\<close>

datatype 'a argument = Omitted | Given 'a

text \<open>
  The constructor \<open>Aggregate(function_name=..., distinct=..., expression=..., separator=...)\<close>.
  The field \<open>expression: Expression | Wildcard\<close> reaches \<open>AdditiveExpression\<close>, so the
  schema is built first; then the fields are validated in the order of their
  declaration.
\<close>

definition Aggregate_new ::
  "AggregateOptions \<Rightarrow> bool option \<Rightarrow> 'e + Wildcard \<Rightarrow> string option argument \<Rightarrow>
   error + 'e Aggregate" where
  "Aggregate_new function_name is_distinct expression separator =
     (case expression_schema of
        Inl e \<Rightarrow> Inl e
      | Inr built \<Rightarrow>
          (case validate_expression expression of
             Inl e \<Rightarrow> Inl (from_validator e)
           | Inr expression' \<Rightarrow>
               (case separator of
                  Omitted \<Rightarrow> Inr (Aggregate function_name is_distinct expression' None)
                | Given v \<Rightarrow>
                    (case validate_separator v of
                       Inl e \<Rightarrow> Inl (from_validator e)
                     | Inr separator' \<Rightarrow>
                         Inr (Aggregate function_name is_distinct expression' separator')))))"

section \<open>Separated text\<close>

text \<open>
  \<open>join sep [t1, ..., tn]\<close> is the text \<open>t1 sep t2 sep ... sep tn\<close>: the separator stands
  once between each two successive items, and neither before the first nor after the
  last.
\<close>

fun join :: "string \<Rightarrow> string list \<Rightarrow> string" where
  "join sep [] = []"
| "join sep [t] = t"
| "join sep (t # u # ts) = t @ sep @ join sep (u # ts)"

text \<open>The text of a rendering that did not raise, joined.\<close>

definition text_of :: "error + fragments \<Rightarrow> string" where
  "text_of r = (case to_string r of Inl e \<Rightarrow> [] | Inr t \<Rightarrow> t)"

section \<open>Example trees\<close>

text \<open>
  The triple patterns, objects and construct triples below are built by their
  constructors.  The graph patterns are trees of the datatypes: the constructors of
  their classes raise, and the trees stand for objects assembled without them.
\<close>

text \<open>The triple pattern \<open>?s ?p ?o\<close>.\<close>

definition spo_example :: TriplesSameSubjectPath where
  "spo_example =
     TriplesSameSubjectPath_VarOrTerm
       (VarOrTerm_Var (Var_VAR1 ''s''),
        PropertyListPathNotEmpty
          (Inr (VerbSimple (Var_VAR1 ''p'')),
           ObjectListPath [ObjectPath (GraphNodePath_VarOrTerm (VarOrTerm_Var (Var_VAR1 ''o'')))])
          None)"

text \<open>The same triple pattern built with \<open>other_pairs=[]\<close>.\<close>

definition spo_pairs_example :: TriplesSameSubjectPath where
  "spo_pairs_example =
     TriplesSameSubjectPath_VarOrTerm
       (VarOrTerm_Var (Var_VAR1 ''s''),
        PropertyListPathNotEmpty
          (Inr (VerbSimple (Var_VAR1 ''p'')),
           ObjectListPath [ObjectPath (GraphNodePath_VarOrTerm (VarOrTerm_Var (Var_VAR1 ''o'')))])
          (Some []))"

text \<open>\<open>OPTIONAL { ?s ?p ?o }\<close> as a \<open>GraphPatternNotTriples\<close>.\<close>

definition optional_example :: "(unit, unit) GraphPatternNotTriples" where
  "optional_example =
     GraphPatternNotTriples_OptionalGraphPattern
       (OptionalGraphPattern
          (GroupGraphPattern_GroupGraphPatternSub
             (GroupGraphPatternSub [TriplesBlock (Some spo_example) None] (Some []))))"

text \<open>The group graph pattern \<open>{ ?s ?p ?o OPTIONAL { ?s ?p ?o } }\<close>.\<close>

definition pattern_example :: "(unit, unit) GroupGraphPattern" where
  "pattern_example =
     GroupGraphPattern_GroupGraphPatternSub
       (GroupGraphPatternSub [TriplesBlock (Some spo_example) None] (Some [optional_example]))"

text \<open>The object \<open>?n\<close> of an object list.\<close>

definition object_example :: "string \<Rightarrow> Object" where
  "object_example n = Object (GraphNode_VarOrTerm (VarOrTerm_Var (Var_VAR1 n)))"

text \<open>The group graph pattern \<open>{ ?s ?p ?o }\<close>.\<close>

definition group_example :: "(unit, unit) GroupGraphPattern" where
  "group_example =
     GroupGraphPattern_GroupGraphPatternSub
       (GroupGraphPatternSub [TriplesBlock (Some spo_example) None] (Some []))"

text \<open>The triples \<open>?s a ?o\<close> of a construct template.\<close>

definition tss_example :: TriplesSameSubject where
  "tss_example =
     TriplesSameSubject_VarOrTerm
       (VarOrTerm_Var (Var_VAR1 ''s''),
        PropertyListNotEmpty [(Verb_VerbRDFType A, ObjectList [object_example ''o''])])"

text \<open>A store in which every \<open>ConstructTriples\<close> holds these triples and no nested one.\<close>

definition store_example :: store where
  "store_example = (\<lambda>a. \<lparr>triples = tss_example, construct_triples = None\<rparr>)"

section \<open>Chains of construct triples\<close>

text \<open>
  \<open>path h a xs t\<close>: in the store \<open>h\<close>, following the field \<open>construct_triples\<close> from
  the object \<open>a\<close> visits the objects \<open>xs\<close> in this order, and the field of the last of
  them holds \<open>t\<close>.  With \<open>t = None\<close> the list \<open>xs\<close> is the chain of \<open>a\<close>: the objects
  whose triples \<open>to_tss_list\<close> lists.
\<close>

fun path :: "store \<Rightarrow> ref \<Rightarrow> ref list \<Rightarrow> ref option \<Rightarrow> bool" where
  "path h a [] t = False"
| "path h a [x] t = (x = a \<and> construct_triples (h a) = t)"
| "path h a (x # y # ys) t =
     (x = a \<and> construct_triples (h a) = Some y \<and> path h y (y # ys) t)"

section \<open>Renderings that are text\<close>

text \<open>
  A rendering is textual when every fragment it yielded is a \<open>str\<close>; a rendering that
  raised yielded nothing that is joined.
\<close>

definition textual :: "error + fragments \<Rightarrow> bool" where
  "textual r = (case r of Inl e \<Rightarrow> True | Inr fs \<Rightarrow> Not_str \<notin> set fs)"

section \<open>Rendering and collecting can raise\<close>

text \<open>
  Claim C1 says that \<open>render\<close> and \<open>collect_triples\<close> never raise on a tree that was
  built, in particular not on a terminal whose class does not override \<open>render\<close>.  On
  the code they do raise: the \<open>iri\<close> built from \<open>PNAME_NS(value="e")\<close> or from
  \<open>PNAME_LN(value="a")\<close> and the numeric literal built from \<open>INTEGER(value="1")\<close> render
  to a \<open>TypeError\<close>, and \<open>collect_triples\<close> on a \<open>TriplesBlock\<close> whose triple pattern was
  built with \<open>other_pairs=[]\<close> is a \<open>TypeError\<close>.
\<close>

theorem render_and_collect_triples_raise:
  "to_string (iri_render (iri_PrefixedName (PrefixedName_PNAME_NS ''e''))) = Inl TypeError
   \<and> to_string (iri_render (iri_PrefixedName (PrefixedName_PNAME_LN ''a''))) = Inl TypeError
   \<and> to_string (GraphTerm_render (GraphTerm_NumericLiteral
         (NumericLiteral_NumericLiteralUnsigned (NumericLiteralUnsigned_INTEGER ''1''))))
       = Inl TypeError
   \<and> TriplesBlock_collect_triples (TriplesBlock (Some spo_pairs_example) None) = Inl TypeError"
  by (simp add: to_string_def spo_pairs_example_def deduplicate_def)

section \<open>Paired structures\<close>

text \<open>
  Claim C2 says that a paired structure with exactly one primary element and no
  secondary element is accepted, also when the secondary list is absent (\<open>None\<close>).  On
  the code the constructors of \<open>Quads\<close> and \<open>GroupGraphPatternSub\<close> raise a \<open>TypeError\<close>
  when the secondary list is \<open>None\<close>, whatever the primary elements are: the validator
  of \<open>Quads\<close> takes \<open>len\<close> of the field before any other check.
\<close>

theorem paired_constructors_raise_on_None:
  "Quads_new [tt] None = Inl TypeError
   \<and> GroupGraphPatternSub_new [tb] None = Inl TypeError
   \<and> Quads_new tts None = Inl TypeError
   \<and> GroupGraphPatternSub_new tbs None = Inl TypeError"
  by (simp add: Quads_new_def GroupGraphPatternSub_new_def validate_paired_def py_len_def
      expression_schema_def typing_List_def)

text \<open>
  With a list as the secondary field the constructor of \<open>Quads\<close> follows the pairing
  rule: no primary element, or more than one primary element with fewer than one
  secondary element less, is a \<open>ValidationError\<close>; anything else is accepted.
\<close>

lemma Quads_new_list:
  "Quads_new tts (Some qnts) =
     (if tts = [] \<or> (1 < length tts \<and> length qnts < length tts - 1) then Inl ValidationError
      else Inr (Quads tts (Some qnts)))"
  by (auto simp add: Quads_new_def validate_paired_def py_len_def Let_def)

section \<open>Collecting triples\<close>

text \<open>
  Claim C3 says that \<open>collect_triples\<close> on a graph pattern that holds the triple
  pattern \<open>?s ?p ?o\<close> both directly and inside an \<open>OPTIONAL\<close> returns it exactly once.
  On the code no such graph pattern is built: already the constructor call for the
  group \<open>{ ?s ?p ?o }\<close> inside the \<open>OPTIONAL\<close>,
  \<open>GroupGraphPatternSub(triples_blocks=[TriplesBlock(triples=spo)],
  graph_patterns_not_triples=[])\<close>, raises a \<open>TypeError\<close>, as it does for every other
  argument.
\<close>

theorem graph_pattern_constructor_raises:
  "GroupGraphPatternSub_new [TriplesBlock (Some spo_example) None] (Some []) = Inl TypeError
   \<and> GroupGraphPatternSub_new triples_blocks graph_patterns_not_triples = Inl TypeError"
  by (simp add: GroupGraphPatternSub_new_def expression_schema_def typing_List_def)

text \<open>
  On a \<open>TriplesBlock\<close>, which is built, the triple pattern held twice is returned once,
  and what \<open>collect_triples\<close> returns holds no element twice.
\<close>

lemma TriplesBlock_collect_triples_twice:
  "TriplesBlock_collect_triples
     (TriplesBlock (Some spo_example) (Some (TriplesBlock (Some spo_example) None)))
   = Inr [spo_example]"
  by (simp add: deduplicate_def spo_example_def)

lemma deduplicate_distinct: "deduplicate xs = Inr ys \<Longrightarrow> distinct ys \<and> set ys = set xs"
  by (auto simp add: deduplicate_def split: if_splits)

lemma TriplesBlock_collect_triples_distinct:
  "TriplesBlock_collect_triples tb = Inr ys \<Longrightarrow> distinct ys"
  by (cases tb) (auto split: sum.splits dest: deduplicate_distinct)

text \<open>
  The walk of \<open>collect_triples\<close> passes over the \<open>content\<close> of a \<open>GroupGraphPattern\<close>
  that is a \<open>GroupGraphPatternSub\<close>: on the tree \<open>{ ?s ?p ?o OPTIONAL { ?s ?p ?o } }\<close>,
  were it assembled without the constructors, it returns the empty list.
\<close>

lemma collect_triples_of_pattern_empty:
  "GroupGraphPattern_collect_triples cs co pattern_example = Inr []"
  by (simp add: pattern_example_def then_deduplicate_def deduplicate_def)

section \<open>Negated property sets\<close>

text \<open>
  Claim C5 says that a negated property set with several alternatives renders all of
  them inside one parenthesised group separated by \<open>|\<close>.  On the code the first
  alternative is rendered before the opening parenthesis: the set with the alternatives
  \<open><a>\<close> and \<open><b>\<close> renders as \<open><a>(<b>)\<close>, and with \<open><a>\<close>, \<open><b>\<close> and \<open><c>\<close> as
  \<open><a>(<b>|<c>)\<close>.
\<close>

theorem PathNegatedPropertySet_render_first_outside:
  "to_string (PathNegatedPropertySet_render
     (PathNegatedPropertySet (PathOneInPropertySet (Inl (iri_IRIREF ''a'')) False)
        (Some [PathOneInPropertySet (Inl (iri_IRIREF ''b'')) False]))) = Inr ''<a>(<b>)''
   \<and> to_string (PathNegatedPropertySet_render
     (PathNegatedPropertySet (PathOneInPropertySet (Inl (iri_IRIREF ''a'')) False)
        (Some [PathOneInPropertySet (Inl (iri_IRIREF ''b'')) False,
               PathOneInPropertySet (Inl (iri_IRIREF ''c'')) False]))) = Inr ''<a>(<b>|<c>)''"
  by (simp add: to_string_def lit_def)

text \<open>A negated property set with one alternative renders as that alternative alone.\<close>

lemma yields_nothing_after: "yields [r, Inr []] = r"
  by (cases r) simp_all

lemma PathNegatedPropertySet_render_single:
  "PathNegatedPropertySet_render (PathNegatedPropertySet first_path None)
     = PathOneInPropertySet_render first_path"
  "PathNegatedPropertySet_render (PathNegatedPropertySet first_path (Some []))
     = PathOneInPropertySet_render first_path"
  by (simp_all add: yields_nothing_after)

section \<open>The builder of a triple pattern\<close>

text \<open>
  Claim C7: for every subject and object that is a \<open>Var\<close>, an \<open>iri\<close> or a \<open>BlankNode\<close>
  and every predicate that is a \<open>Var\<close> or an \<open>iri\<close>, \<open>from_spo\<close> returns the tree
  assembled by hand from the same constructors, and the two render to the same text
  (or raise the same exception).
\<close>

theorem from_spo_is_hand_assembled:
  "from_spo (operand_of_term s) (operand_of_verb p) (operand_of_term ob)
     = Inr (hand_assembled s p ob)
   \<and> to_string (render_built TriplesSameSubjectPath_render
         (from_spo (operand_of_term s) (operand_of_verb p) (operand_of_term ob)))
     = to_string (TriplesSameSubjectPath_render (hand_assembled s p ob))"
proof -
  have built: "from_spo (operand_of_term s) (operand_of_verb p) (operand_of_term ob)
      = Inr (hand_assembled s p ob)"
    by (cases s; cases p; cases ob)
       (simp_all add: from_spo_def hand_assembled_def PathSequence_new_def
          PathAlternative_new_def)
  then show ?thesis
    by (simp add: render_built_def)
qed

section \<open>The constructor of an aggregate\<close>

text \<open>
  Claim C10 says that the constructor of \<open>Aggregate\<close> raises a validation error, from
  its field validators, whenever a separator other than \<open>None\<close> is given and whenever
  the expression is the wildcard.  On the code the constructor raises a \<open>TypeError\<close> for
  every argument, before any validator runs: \<open>GROUP_CONCAT\<close> with a separator, \<open>COUNT\<close>
  of the wildcard, and any other aggregate.
\<close>

theorem Aggregate_new_raises_TypeError:
  "Aggregate_new GROUP_CONCAT None (Inr WILDCARD) (Given (Some '','')) = Inl TypeError
   \<and> Aggregate_new COUNT None (Inr WILDCARD) Omitted = Inl TypeError
   \<and> Aggregate_new function_name is_distinct expression separator = Inl TypeError"
  by (simp add: Aggregate_new_def expression_schema_def typing_List_def)

text \<open>
  The validators themselves, were they reached, raise the \<open>AttributeError\<close> of the
  lookup of \<open>cls.function_name\<close>, whatever the \<open>function_name\<close> given.
\<close>

lemma validators_raise_AttributeError:
  "validate_expression (Inr WILDCARD) = Inl AttributeError"
  "validate_separator v = Inl AttributeError"
  by (simp_all add: validate_expression_def validate_separator_def cls_function_name_def
      and_then_def)

section \<open>Separators of object lists and property lists\<close>

lemma textual_lit: "textual (lit s)"
  by (simp add: textual_def lit_def)

lemma textual_Inl: "textual (Inl e)"
  by (simp add: textual_def)

lemma textual_yields: "\<forall>r\<in>set rs. textual r \<Longrightarrow> textual (yields rs)"
  by (induction rs rule: yields.induct) (auto simp add: textual_def split: sum.splits)

lemma textual_Terminal: "textual (Terminal_render t)"
  by (cases t) (auto simp add: textual_lit textual_Inl intro!: textual_yields)

lemma textual_Var: "textual (Var_render v)"
  by (cases v) (simp_all only: Var_render.simps textual_Terminal)

lemma textual_PrefixedName: "textual (PrefixedName_render p)"
  by (cases p) (simp_all only: PrefixedName_render.simps textual_Terminal)

lemma textual_iri: "textual (iri_render i)"
  by (cases i) (simp_all only: iri_render.simps textual_Terminal textual_PrefixedName)

lemma textual_BlankNode: "textual (BlankNode_render b)"
  by (cases b)
     (auto simp only: BlankNode_render.simps textual_Terminal textual_lit textual_Inl
        list.set insert_iff empty_iff intro!: textual_yields)

lemma textual_String: "textual (String_render v)"
  by (cases v) (simp_all only: String_render.simps textual_Terminal)

lemma textual_RDFLiteral: "textual (RDFLiteral_render l)"
proof (cases l)
  case (RDFLiteral v langtag dt)
  have "textual (case langtag of
          Some l \<Rightarrow> Terminal_render (LANGTAG l)
        | None \<Rightarrow> (case dt of Some d \<Rightarrow> yields [lit ''^^'', iri_render d] | None \<Rightarrow> yields []))"
    by (auto simp only: textual_Terminal textual_lit textual_iri list.set insert_iff empty_iff
          intro!: textual_yields split: option.splits)
  with RDFLiteral show ?thesis
    by (auto simp only: RDFLiteral_render.simps textual_String list.set insert_iff empty_iff
          intro!: textual_yields)
qed

lemma textual_NumericLiteral: "textual (NumericLiteral_render n)"
proof (cases n)
  case (NumericLiteral_NumericLiteralUnsigned u)
  then show ?thesis
    by (cases u)
       (simp_all only: NumericLiteral_render.simps NumericLiteralUnsigned_render.simps
          textual_Terminal)
next
  case (NumericLiteral_NumericLiteralPositive u)
  then show ?thesis
    by (cases u)
       (simp_all only: NumericLiteral_render.simps NumericLiteralPositive_render.simps
          textual_Terminal)
next
  case (NumericLiteral_NumericLiteralNegative u)
  then show ?thesis
    by (cases u)
       (simp_all only: NumericLiteral_render.simps NumericLiteralNegative_render.simps
          textual_Terminal)
qed

lemma textual_BooleanLiteral: "textual (BooleanLiteral_render b)"
  by (cases b) (auto simp add: textual_def)

lemma textual_GraphTerm: "textual (GraphTerm_render g)"
  by (cases g)
     (simp_all only: GraphTerm_render.simps textual_iri textual_RDFLiteral
        textual_NumericLiteral textual_BooleanLiteral textual_BlankNode textual_Terminal)

lemma textual_VarOrTerm: "textual (VarOrTerm_render v)"
  by (cases v) (simp_all only: VarOrTerm_render.simps textual_Var textual_GraphTerm)

lemma textual_VarOrIri: "textual (VarOrIri_render v)"
  by (cases v) (simp_all only: VarOrIri_render.simps textual_Var textual_iri)

lemma textual_Verb: "textual (Verb_render v)"
  by (cases v) (simp_all only: Verb_render.simps textual_VarOrIri textual_lit)

lemma textual_first_then_sep: "\<forall>r\<in>set rs. textual r \<Longrightarrow> textual (first_then_sep sep rs)"
  by (cases rs)
     (auto simp add: first_then_sep_def textual_Inl textual_lit intro!: textual_yields
        split: if_splits)

lemma textual_verb_objectlist:
  "\<forall>r\<in>set rs. textual (fst r) \<and> textual (snd r) \<Longrightarrow> textual (verb_objectlist_render rs)"
  by (cases rs)
     (auto simp add: verb_objectlist_render_def textual_Inl textual_lit intro!: textual_yields
        split: if_splits)

lemma textual_nest:
  "textual (PropertyListNotEmpty_render p)"
  "textual (ObjectList_render ol)"
  "textual (Object_render ob)"
  "textual (GraphNode_render g)"
  "textual (TriplesNode_render t)"
  "textual (SG_Collection_render c)"
  "textual (BlankNodePropertyList_render b)"
proof (induction p and ol and ob and g and t and c and b)
  case (PropertyListNotEmpty x)
  then show ?case
    by (auto simp add: textual_Verb intro!: textual_verb_objectlist)
next
  case (ObjectList x)
  then show ?case by (auto intro!: textual_first_then_sep)
next
  case (Object x)
  then show ?case by simp
next
  case (GraphNode_VarOrTerm x)
  then show ?case by (simp add: textual_VarOrTerm)
next
  case (GraphNode_TriplesNode x)
  then show ?case by simp
next
  case (TriplesNode_SG_Collection x)
  then show ?case by simp
next
  case (TriplesNode_BlankNodePropertyList x)
  then show ?case by simp
next
  case (SG_Collection x)
  then show ?case by (auto simp add: textual_lit intro!: textual_yields)
next
  case (BlankNodePropertyList x)
  then show ?case by (auto simp add: textual_lit intro!: textual_yields)
qed

lemma yields_map_Inr: "yields (map Inr fss) = Inr (concat fss)"
  by (induction fss) simp_all

lemma join_fragments_Str: "join_fragments (map Str ss) = Inr (concat ss)"
  by (induction ss) simp_all

lemma textual_strs: "Not_str \<notin> set fs \<Longrightarrow> \<exists>ss. fs = map Str ss"
proof (induction fs)
  case Nil
  then show ?case by simp
next
  case (Cons f fs)
  then obtain ss where "fs = map Str ss" by auto
  moreover from Cons.prems obtain s where "f = Str s" by (cases f) auto
  ultimately have "f # fs = map Str (s # ss)" by simp
  then show ?case by (rule exI)
qed

lemma all_rendered:
  "\<forall>r\<in>set rs. \<not> isl r \<and> textual r \<Longrightarrow> \<exists>sss. rs = map (\<lambda>ss. Inr (map Str ss)) sss"
proof (induction rs)
  case Nil
  then show ?case by simp
next
  case (Cons r rs)
  then obtain sss where "rs = map (\<lambda>ss. Inr (map Str ss)) sss" by auto
  moreover from Cons.prems obtain fs where r: "r = Inr fs" and "Not_str \<notin> set fs"
    by (cases r) (auto simp add: textual_def)
  then obtain ss where "fs = map Str ss" using textual_strs by blast
  ultimately have "r # rs = map (\<lambda>ss. Inr (map Str ss)) (ss # sss)" using r by simp
  then show ?case by (rule exI)
qed

lemma text_of_Str: "text_of (Inr (map Str ss)) = concat ss"
  by (simp add: text_of_def to_string_def join_fragments_Str)

lemma concat_sep_join:
  "concat (concat (f # concat (map (\<lambda>x. [[sep], x]) fs))) = join sep (map concat (f # fs))"
  by (induction fs arbitrary: f) simp_all

lemma first_then_sep_text:
  assumes "rs \<noteq> []" and "\<forall>r\<in>set rs. \<not> isl r" and "\<forall>r\<in>set rs. textual r"
  shows "to_string (first_then_sep sep rs) = Inr (join sep (map text_of rs))"
proof -
  from assms(2,3) obtain sss where rs: "rs = map (\<lambda>ss. Inr (map Str ss)) sss"
    using all_rendered [of rs] by blast
  with assms(1) obtain f fs where sss: "sss = f # fs" by (cases sss) auto
  have "concat (map (\<lambda>r. [lit sep, r]) (map (\<lambda>ss. Inr (map Str ss)) fs))
      = map Inr (concat (map (\<lambda>x. [[Str sep], map Str x]) fs))"
    by (induction fs) (simp_all add: lit_def)
  moreover have "concat (map Str f # concat (map (\<lambda>x. [[Str sep], map Str x]) fs))
      = map Str (concat (f # concat (map (\<lambda>x. [[sep], x]) fs)))"
    by (induction fs) simp_all
  ultimately have "first_then_sep sep rs
      = Inr (map Str (concat (f # concat (map (\<lambda>x. [[sep], x]) fs))))"
    using yields_map_Inr [of "map Str f # concat (map (\<lambda>x. [[Str sep], map Str x]) fs)"]
    by (simp add: first_then_sep_def rs sss)
  then have "to_string (first_then_sep sep rs)
      = Inr (concat (concat (f # concat (map (\<lambda>x. [[sep], x]) fs))))"
    by (simp only: to_string_def sum.case join_fragments_Str)
  moreover have "map text_of rs = map concat (f # fs)"
    by (simp add: rs sss text_of_Str comp_def)
  ultimately show ?thesis
    by (simp only: concat_sep_join)
qed

lemma concat_pairs_join:
  "concat (concat ([v, ['' ''], ol]
       @ concat (map (\<lambda>item. [['';''], fst item, ['' ''], snd item]) ps)))
     = join '';'' (map (\<lambda>item. concat (fst item) @ '' '' @ concat (snd item)) ((v, ol) # ps))"
  by (induction ps arbitrary: v ol) simp_all

lemma verb_objectlist_text:
  assumes "rs \<noteq> []" and "\<forall>r\<in>set rs. \<not> isl (fst r) \<and> \<not> isl (snd r)"
    and "\<forall>r\<in>set rs. textual (fst r) \<and> textual (snd r)"
  shows "to_string (verb_objectlist_render rs)
     = Inr (join '';'' (map (\<lambda>r. text_of (fst r) @ '' '' @ text_of (snd r)) rs))"
proof -
  have "\<exists>ps. rs = map (map_prod (\<lambda>ss. Inr (map Str ss)) (\<lambda>ss. Inr (map Str ss))) ps"
    using assms(2,3)
  proof (induction rs)
    case Nil
    then show ?case by simp
  next
    case (Cons r rs)
    then obtain ps where
      "rs = map (map_prod (\<lambda>ss. Inr (map Str ss)) (\<lambda>ss. Inr (map Str ss))) ps"
      by auto
    moreover from Cons.prems have "\<forall>x\<in>set [fst r, snd r]. \<not> isl x \<and> textual x" by simp
    then have "\<exists>sss. [fst r, snd r] = map (\<lambda>ss. Inr (map Str ss)) sss"
      by (rule all_rendered)
    then obtain sss where "[fst r, snd r] = map (\<lambda>ss. Inr (map Str ss)) sss" ..
    then obtain v ol where "r = (Inr (map Str v), Inr (map Str ol))"
      by (cases r; cases sss; cases "tl sss") auto
    ultimately have
      "r # rs = map (map_prod (\<lambda>ss. Inr (map Str ss)) (\<lambda>ss. Inr (map Str ss))) ((v, ol) # ps)"
      by simp
    then show ?case by (rule exI)
  qed
  then obtain ps where
    rs: "rs = map (map_prod (\<lambda>ss. Inr (map Str ss)) (\<lambda>ss. Inr (map Str ss))) ps"
    by blast
  with assms(1) obtain v ol qs where ps: "ps = (v, ol) # qs" by (cases ps) auto
  have "concat (map (\<lambda>item. [lit '';'', fst item, lit '' '', snd item])
          (map (map_prod (\<lambda>ss. Inr (map Str ss)) (\<lambda>ss. Inr (map Str ss))) qs))
      = map Inr (concat (map (\<lambda>item. [[Str '';''], map Str (fst item), [Str '' ''],
                                       map Str (snd item)]) qs))"
    by (induction qs) (simp_all add: lit_def)
  moreover have "concat ([map Str v, [Str '' ''], map Str ol]
        @ concat (map (\<lambda>item. [[Str '';''], map Str (fst item), [Str '' ''],
                                map Str (snd item)]) qs))
      = map Str (concat ([v, ['' ''], ol]
          @ concat (map (\<lambda>item. [['';''], fst item, ['' ''], snd item]) qs)))"
    by (induction qs) simp_all
  ultimately have "verb_objectlist_render rs
      = Inr (map Str (concat ([v, ['' ''], ol]
               @ concat (map (\<lambda>item. [['';''], fst item, ['' ''], snd item]) qs))))"
    using yields_map_Inr
      [of "[map Str v, [Str '' ''], map Str ol]
           @ concat (map (\<lambda>item. [[Str '';''], map Str (fst item), [Str '' ''],
                                   map Str (snd item)]) qs)"]
    by (simp add: verb_objectlist_render_def rs ps lit_def)
  then have "to_string (verb_objectlist_render rs)
      = Inr (concat (concat ([v, ['' ''], ol]
               @ concat (map (\<lambda>item. [['';''], fst item, ['' ''], snd item]) qs))))"
    by (simp only: to_string_def sum.case join_fragments_Str)
  moreover have "map (\<lambda>r. text_of (fst r) @ '' '' @ text_of (snd r)) rs
      = map (\<lambda>item. concat (fst item) @ '' '' @ concat (snd item)) ((v, ol) # qs)"
    by (simp add: rs ps text_of_Str comp_def)
  ultimately show ?thesis
    by (simp only: concat_pairs_join)
qed

text \<open>
  Claim C4: for a non-empty list of objects that render, \<open>ObjectList.render\<close> is the
  renderings of the objects joined by one \<open>,\<close> each, with no comma before the first or
  after the last; and for a non-empty list of pairs of a verb and an object list that
  render, \<open>PropertyListNotEmpty.render\<close> is the texts \<open>verb objectlist\<close> of the pairs
  joined by one \<open>;\<close> each.
\<close>

theorem ObjectList_and_PropertyListNotEmpty_render_join:
  "(list_object \<noteq> [] \<and> (\<forall>ob\<in>set list_object. \<not> isl (Object_render ob))
      \<longrightarrow> to_string (ObjectList_render (ObjectList list_object))
            = Inr (join '','' (map (\<lambda>ob. text_of (Object_render ob)) list_object)))
   \<and> (verb_objectlist \<noteq> []
        \<and> (\<forall>vo\<in>set verb_objectlist.
              \<not> isl (Verb_render (fst vo)) \<and> \<not> isl (ObjectList_render (snd vo)))
      \<longrightarrow> to_string (PropertyListNotEmpty_render (PropertyListNotEmpty verb_objectlist))
            = Inr (join '';''
                (map (\<lambda>vo. text_of (Verb_render (fst vo)) @ '' ''
                              @ text_of (ObjectList_render (snd vo))) verb_objectlist)))"
proof (intro conjI impI)
  assume a: "list_object \<noteq> [] \<and> (\<forall>ob\<in>set list_object. \<not> isl (Object_render ob))"
  then show "to_string (ObjectList_render (ObjectList list_object))
            = Inr (join '','' (map (\<lambda>ob. text_of (Object_render ob)) list_object))"
    using first_then_sep_text [of "map Object_render list_object" "'',''"]
    by (simp add: comp_def textual_nest)
next
  assume a: "verb_objectlist \<noteq> []
        \<and> (\<forall>vo\<in>set verb_objectlist.
              \<not> isl (Verb_render (fst vo)) \<and> \<not> isl (ObjectList_render (snd vo)))"
  then show "to_string (PropertyListNotEmpty_render (PropertyListNotEmpty verb_objectlist))
            = Inr (join '';''
                (map (\<lambda>vo. text_of (Verb_render (fst vo)) @ '' ''
                              @ text_of (ObjectList_render (snd vo))) verb_objectlist))"
    using verb_objectlist_text
      [of "map (map_prod Verb_render ObjectList_render) verb_objectlist"]
    by (simp add: comp_def textual_nest textual_Verb)
qed

theorem ObjectList_and_PropertyListNotEmpty_render_join_witness:
  "[object_example ''a'', object_example ''b'', object_example ''c''] \<noteq> []
   \<and> \<not> isl (Object_render (object_example ''a''))
   \<and> \<not> isl (Object_render (object_example ''b''))
   \<and> \<not> isl (Object_render (object_example ''c''))
   \<and> to_string (ObjectList_render
        (ObjectList [object_example ''a'', object_example ''b'', object_example ''c'']))
     = Inr ''?a,?b,?c''
   \<and> to_string (PropertyListNotEmpty_render (PropertyListNotEmpty
        [(Verb_VerbRDFType A, ObjectList [object_example ''x'']),
         (Verb_VarOrIri (VarOrIri_Var (Var_VAR1 ''p'')),
          ObjectList [object_example ''y'', object_example ''z''])]))
     = Inr ''a ?x;?p ?y,?z''"
  using ObjectList_and_PropertyListNotEmpty_render_join
    [of "[object_example ''a'', object_example ''b'', object_example ''c'']"
        "[(Verb_VerbRDFType A, ObjectList [object_example ''x'']),
          (Verb_VarOrIri (VarOrIri_Var (Var_VAR1 ''p'')),
           ObjectList [object_example ''y'', object_example ''z''])]"]
  by (simp add: object_example_def text_of_def to_string_def lit_def first_then_sep_def)

section \<open>The relational filter helper\<close>

text \<open>
  Claim C6 says that \<open>Filter.filter_relational\<close> with the operator \<open>IN\<close> and a list of
  two comparators returns a filter that renders as \<open>FILTER (s IN (a, b))\<close>, and that with
  a single comparator and the operator \<open>IN\<close> or \<open>NOT IN\<close> it raises the error of its
  operand check.  On the code the first statement of the helper, which wraps the focus
  in a \<open>NumericExpression\<close>, raises a \<open>TypeError\<close>: the helper returns no filter and does
  not reach its operand check, whatever the operands and the operator.
\<close>

theorem filter_relational_raises_TypeError:
  "filter_relational focus (Inr [a, b]) ''IN'' = Inl TypeError
   \<and> filter_relational focus (Inl comparator) ''IN'' = Inl TypeError
   \<and> filter_relational focus comparators operator = Inl TypeError"
  by (simp add: filter_relational_def numeric_of_primary_def and_then_def constructed_def
      expression_schema_def typing_List_def)

section \<open>The \<open>UNION\<close> tokens of a group or union graph pattern\<close>

lemma union_steps_length:
  "length (concat (map (\<lambda>g. [Yield u, YieldFrom g]) rest)) = 2 * length rest"
  by (induction rest) simp_all

lemma union_steps_nth:
  "k < length rest \<Longrightarrow>
     concat (map (\<lambda>g. [Yield u, YieldFrom g]) rest) ! (2 * k) = Yield u
     \<and> concat (map (\<lambda>g. [Yield u, YieldFrom g]) rest) ! Suc (2 * k) = YieldFrom (rest ! k)"
proof (induction rest arbitrary: k)
  case Nil
  then show ?case by simp
next
  case (Cons g rest)
  show ?case
  proof (cases k)
    case 0
    then show ?thesis by simp
  next
    case (Suc j)
    with Cons.prems have "j < length rest" by simp
    from Cons.IH [OF this] Suc show ?thesis by simp
  qed
qed

lemma union_steps_count:
  "s \<noteq> u \<Longrightarrow>
   count_list ([Yield s, YieldFrom g] @ concat (map (\<lambda>g. [Yield u, YieldFrom g]) rest)) (Yield u)
     = length rest"
  by (induction rest) simp_all

lemma union_steps_children:
  "concat (map (\<lambda>st. case st of Yield s \<Rightarrow> [] | YieldFrom g \<Rightarrow> [g])
       ([Yield s, YieldFrom g] @ concat (map (\<lambda>g. [Yield u, YieldFrom g]) rest))) = g # rest"
  by (induction rest) simp_all

lemma union_steps_between:
  assumes "s \<noteq> u"
    and "i < length (Yield s # YieldFrom g # concat (map (\<lambda>g. [Yield u, YieldFrom g]) rest))"
    and "(Yield s # YieldFrom g # concat (map (\<lambda>g. [Yield u, YieldFrom g]) rest)) ! i = Yield u"
  shows "\<exists>j. Suc j < length (g # rest) \<and> 0 < i
     \<and> Suc i < length (Yield s # YieldFrom g # concat (map (\<lambda>g. [Yield u, YieldFrom g]) rest))
     \<and> (Yield s # YieldFrom g # concat (map (\<lambda>g. [Yield u, YieldFrom g]) rest)) ! (i - 1)
         = YieldFrom ((g # rest) ! j)
     \<and> (Yield s # YieldFrom g # concat (map (\<lambda>g. [Yield u, YieldFrom g]) rest)) ! Suc i
         = YieldFrom ((g # rest) ! Suc j)"
proof -
  let ?alt = "concat (map (\<lambda>g. [Yield u, YieldFrom g]) rest)"
  have len: "length ?alt = 2 * length rest" by (rule union_steps_length)
  from assms(1,3) have "i \<noteq> 0" by (cases i) auto
  moreover from assms(3) have "i \<noteq> 1" by auto
  ultimately obtain m where i: "i = Suc (Suc m)" by (cases i; cases "i - 1") auto
  with assms(2) len have m: "m < 2 * length rest" by simp
  from assms(3) i have at_m: "?alt ! m = Yield u" by simp
  have "even m"
  proof (rule ccontr)
    assume "odd m"
    then obtain k where k: "m = Suc (2 * k)" by (auto elim: oddE)
    with m have "k < length rest" by simp
    from union_steps_nth [OF this, of u] k at_m show False by simp
  qed
  then obtain k where k: "m = 2 * k" by (auto elim: evenE)
  with m have klt: "k < length rest" by simp
  have next_step: "?alt ! Suc m = YieldFrom (rest ! k)"
    using union_steps_nth [OF klt, of u] k by simp
  have prev_step: "(Yield s # YieldFrom g # ?alt) ! Suc m = YieldFrom ((g # rest) ! k)"
  proof (cases k)
    case 0
    with k show ?thesis by simp
  next
    case (Suc j)
    with klt have "j < length rest" by simp
    from union_steps_nth [OF this, of u] Suc k show ?thesis by simp
  qed
  have "Suc k < length (g # rest)" using klt by simp
  moreover have "0 < i" using i by simp
  moreover have "Suc i < length (Yield s # YieldFrom g # ?alt)" using i k klt len by simp
  moreover have "(Yield s # YieldFrom g # ?alt) ! (i - 1) = YieldFrom ((g # rest) ! k)"
    using prev_step i by simp
  moreover have "(Yield s # YieldFrom g # ?alt) ! Suc i = YieldFrom ((g # rest) ! Suc k)"
    using next_step i by simp
  ultimately show ?thesis by (intro exI [of _ k] conjI)
qed

lemma run_steps_map:
  "run_steps (\<lambda>r. r) (GroupOrUnionGraphPattern_steps (map f gs))
     = run_steps f (GroupOrUnionGraphPattern_steps gs)"
proof (cases gs)
  case Nil
  then show ?thesis by (simp add: GroupOrUnionGraphPattern_steps_def run_steps_def)
next
  case (Cons g rest)
  have "map (run_step (\<lambda>r. r)) (concat (map (\<lambda>ggp. [Yield u, YieldFrom ggp]) (map f rest)))
      = map (run_step f) (concat (map (\<lambda>ggp. [Yield u, YieldFrom ggp]) rest))" for u
    by (induction rest) simp_all
  with Cons show ?thesis by (simp add: GroupOrUnionGraphPattern_steps_def run_steps_def)
qed

text \<open>
  Claim C8: the \<open>render\<close> of a \<open>GroupOrUnionGraphPattern\<close> with \<open>n \<ge> 1\<close> group graph
  patterns runs a sequence of statements that delegates to the patterns in their order,
  yields the token \<open>UNION\<close> exactly \<open>n - 1\<close> times, and yields each \<open>UNION\<close> right
  after delegating to one pattern and right before delegating to the next one, so never
  before the first pattern or after the last.
\<close>

theorem GroupOrUnionGraphPattern_render_union:
  assumes "group_graph_patterns \<noteq> []"
  shows "\<exists>steps.
      GroupOrUnionGraphPattern_steps group_graph_patterns = Inr steps
    \<and> GroupOrUnionGraphPattern_render rs ro (GroupOrUnionGraphPattern group_graph_patterns)
        = run_steps (GroupGraphPattern_render rs ro) (Inr steps)
    \<and> count_list steps (Yield ''\<newline>UNION\<newline>'') = length group_graph_patterns - 1
    \<and> concat (map (\<lambda>st. case st of Yield s \<Rightarrow> [] | YieldFrom g \<Rightarrow> [g]) steps)
        = group_graph_patterns
    \<and> (\<forall>i<length steps. steps ! i = Yield ''\<newline>UNION\<newline>'' \<longrightarrow>
         (\<exists>j. Suc j < length group_graph_patterns \<and> 0 < i \<and> Suc i < length steps
            \<and> steps ! (i - 1) = YieldFrom (group_graph_patterns ! j)
            \<and> steps ! Suc i = YieldFrom (group_graph_patterns ! Suc j)))"
proof -
  from assms obtain g rest where gs: "group_graph_patterns = g # rest"
    by (cases group_graph_patterns) auto
  let ?u = "''\<newline>UNION\<newline>''"
  let ?steps = "Yield ''\<newline>'' # YieldFrom g
                  # concat (map (\<lambda>ggp. [Yield ?u, YieldFrom ggp]) rest)"
  have ne: "''\<newline>'' \<noteq> ?u" by simp
  have 1: "GroupOrUnionGraphPattern_steps group_graph_patterns = Inr ?steps"
    by (simp add: gs GroupOrUnionGraphPattern_steps_def)
  have 2: "GroupOrUnionGraphPattern_render rs ro (GroupOrUnionGraphPattern group_graph_patterns)
        = run_steps (GroupGraphPattern_render rs ro) (Inr ?steps)"
    using run_steps_map [of "GroupGraphPattern_render rs ro" group_graph_patterns] 1 by simp
  have 3: "count_list ?steps (Yield ?u) = length group_graph_patterns - 1"
    using union_steps_count [OF ne, of g rest] by (simp add: gs)
  have 4: "concat (map (\<lambda>st. case st of Yield s \<Rightarrow> [] | YieldFrom g \<Rightarrow> [g]) ?steps)
        = group_graph_patterns"
    using union_steps_children [of "''\<newline>''" g ?u rest] by (simp add: gs)
  have 5: "\<forall>i<length ?steps. ?steps ! i = Yield ?u \<longrightarrow>
         (\<exists>j. Suc j < length group_graph_patterns \<and> 0 < i \<and> Suc i < length ?steps
            \<and> ?steps ! (i - 1) = YieldFrom (group_graph_patterns ! j)
            \<and> ?steps ! Suc i = YieldFrom (group_graph_patterns ! Suc j))"
  proof (intro allI impI)
    fix i
    assume "i < length ?steps" and "?steps ! i = Yield ?u"
    from union_steps_between [OF ne this]
    show "\<exists>j. Suc j < length group_graph_patterns \<and> 0 < i \<and> Suc i < length ?steps
            \<and> ?steps ! (i - 1) = YieldFrom (group_graph_patterns ! j)
            \<and> ?steps ! Suc i = YieldFrom (group_graph_patterns ! Suc j)"
      unfolding gs .
  qed
  from 1 2 3 4 5 show ?thesis by (intro exI [of _ ?steps] conjI)
qed

theorem GroupOrUnionGraphPattern_render_union_witness:
  "[group_example, group_example, group_example] \<noteq> []
   \<and> (\<exists>steps.
        GroupOrUnionGraphPattern_steps [group_example, group_example, group_example] = Inr steps
        \<and> count_list steps (Yield ''\<newline>UNION\<newline>'') = 2
        \<and> steps ! 2 = Yield ''\<newline>UNION\<newline>''
        \<and> steps ! 4 = Yield ''\<newline>UNION\<newline>''
        \<and> length steps = 6)
   \<and> to_string (GroupOrUnionGraphPattern_render (\<lambda>u. Inr []) (\<lambda>u. Inr [])
        (GroupOrUnionGraphPattern [group_example, group_example]))
     = Inr ''\<newline>{\<newline>?s ?p ?o\<newline>}\<newline>UNION\<newline>{\<newline>?s ?p ?o\<newline>}''"
  using GroupOrUnionGraphPattern_render_union
    [of "[group_example, group_example, group_example]" "\<lambda>u. Inr []" "\<lambda>u. Inr []"]
    GroupOrUnionGraphPattern_render_union
    [of "[group_example, group_example]" "\<lambda>u. Inr []" "\<lambda>u. Inr []"]
  by (auto simp add: GroupOrUnionGraphPattern_steps_def run_steps_def to_string_def lit_def
      group_example_def spo_example_def blocks_and_patterns_render_def pairs_render_def
      first_then_sep_def)

section \<open>The merge of construct triples\<close>

text \<open>
  Claim C9 says that no operation changes a node that was built, and that \<open>merge_ct\<close>
  builds a new parent and leaves its inputs as they were.  On the code, merging two
  \<open>ConstructTriples\<close> without nested ones assigns the second one to the field
  \<open>construct_triples\<close> of the first, which was \<open>None\<close>, and returns the first.
\<close>

theorem merge_ct_changes_first_input:
  "merge_ct store_example [0, 1]
     = Some (store_example(0 := (store_example 0)\<lparr>construct_triples := Some 1\<rparr>), Some 0)
   \<and> construct_triples (store_example 0) = None
   \<and> (store_example(0 := (store_example 0)\<lparr>construct_triples := Some 1\<rparr>)) 0
       \<noteq> store_example 0"
proof -
  have "last_of_chain store_example 0 = Some 0"
    by (subst last_of_chain.simps) (simp add: store_example_def)
  then show ?thesis
    by (simp add: merge_ct_def store_example_def)
qed

lemma last_of_chain_None: "construct_triples (h a) = None \<Longrightarrow> last_of_chain h a = Some a"
  by (subst last_of_chain.simps) simp

lemma last_of_chain_Some:
  "construct_triples (h a) = Some b \<Longrightarrow> last_of_chain h a = last_of_chain h b"
  by (subst last_of_chain.simps) simp

lemma path_hd: "path h a xs t \<Longrightarrow> xs \<noteq> [] \<and> hd xs = a"
  by (induction h a xs t rule: path.induct) simp_all

lemma path_cong: "\<forall>x\<in>set xs. h' x = h x \<Longrightarrow> path h' a xs t = path h a xs t"
  by (induction h a xs t rule: path.induct) auto

lemma path_last_of_chain: "path h a xs None \<Longrightarrow> last_of_chain h a = Some (last xs)"
proof (induction h a xs "None :: ref option" rule: path.induct)
  case (1 h a)
  then show ?case by simp
next
  case (2 h a x)
  then show ?case by (simp add: last_of_chain_None)
next
  case (3 h a x y ys)
  then show ?case by (simp add: last_of_chain_Some)
qed

lemma path_relink:
  "path h a xs t \<Longrightarrow> distinct xs \<Longrightarrow>
     path (h(last xs := (h (last xs))\<lparr>construct_triples := t'\<rparr>)) a xs t'"
proof (induction h a xs t rule: path.induct)
  case (1 h a t)
  then show ?case by simp
next
  case (2 h a x t)
  then show ?case by simp
next
  case (3 h a x y ys t)
  then have "last (y # ys) \<noteq> x" by auto
  with 3 show ?case by simp
qed

lemma path_append:
  "path h a xs (Some b) \<Longrightarrow> path h b ys t \<Longrightarrow> path h a (xs @ ys) t"
proof (induction h a xs "Some b" rule: path.induct)
  case (1 h a)
  then show ?case by simp
next
  case (2 h a x)
  then show ?case using path_hd [of h b ys t] by (cases ys) auto
next
  case (3 h a x y ys')
  then show ?case by simp
qed

lemma merge_ct_loop_chain:
  assumes "path h current_ct cs None"
    and "list_all2 (\<lambda>a xs. path h a xs None) rest xss"
    and "distinct (cs @ concat xss)"
  shows "\<exists>h'. merge_ct_loop h current_ct rest = Some h'
           \<and> path h' current_ct (cs @ concat xss) None
           \<and> (\<forall>a. a \<notin> set (cs @ concat xss) \<longrightarrow> h' a = h a)"
  using assms
proof (induction rest arbitrary: h current_ct cs xss)
  case Nil
  then show ?case by simp
next
  case (Cons next_ct rest)
  from Cons.prems(2) obtain xs yss where xss: "xss = xs # yss"
    and xs: "path h next_ct xs None"
    and rest: "list_all2 (\<lambda>a xs. path h a xs None) rest yss"
    by (auto simp add: list_all2_Cons1)
  let ?l = "last cs"
  let ?h2 = "h(?l := (h ?l)\<lparr>construct_triples := Some next_ct\<rparr>)"
  from Cons.prems(1) have cs_ne: "cs \<noteq> []" using path_hd by blast
  then have l_in: "?l \<in> set cs" by simp
  from Cons.prems(3) xss have dist: "distinct cs" "distinct (xs @ concat yss)"
    "set cs \<inter> set (xs @ concat yss) = {}"
    by auto
  have l_out: "?l \<notin> set (xs @ concat yss)" using l_in dist(3) by blast
  have last: "last_of_chain h current_ct = Some ?l"
    using Cons.prems(1) by (rule path_last_of_chain)
  have xs2: "path ?h2 next_ct xs None"
  proof -
    from l_out have "\<forall>x\<in>set xs. ?h2 x = h x" by auto
    with xs show ?thesis using path_cong [of xs ?h2 h next_ct None] by blast
  qed
  have rest2: "list_all2 (\<lambda>a xs. path ?h2 a xs None) rest yss"
  proof (rule list.rel_mono_strong [OF rest])
    fix a ys
    assume "ys \<in> set yss"
    with l_out have "\<forall>x\<in>set ys. ?h2 x = h x" by auto
    moreover assume "path h a ys None"
    ultimately show "path ?h2 a ys None" using path_cong [of ys ?h2 h a None] by blast
  qed
  from Cons.IH [OF xs2 rest2 dist(2)] obtain h' where
    loop: "merge_ct_loop ?h2 next_ct rest = Some h'"
    and tail: "path h' next_ct (xs @ concat yss) None"
    and frame: "\<forall>a. a \<notin> set (xs @ concat yss) \<longrightarrow> h' a = ?h2 a"
    by blast
  have "path ?h2 current_ct cs (Some next_ct)"
    using Cons.prems(1) dist(1) by (rule path_relink)
  moreover have "\<forall>x\<in>set cs. h' x = ?h2 x" using frame dist(3) by blast
  ultimately have head: "path h' current_ct cs (Some next_ct)"
    using path_cong [of cs h' ?h2 current_ct "Some next_ct"] by blast
  have "path h' current_ct (cs @ xs @ concat yss) None"
    using head tail by (rule path_append)
  moreover have "merge_ct_loop h current_ct (next_ct # rest) = Some h'"
    using last loop by simp
  moreover have "\<forall>a. a \<notin> set (cs @ xs @ concat yss) \<longrightarrow> h' a = h a"
    using frame l_in by auto
  ultimately show ?case by (simp add: xss)
qed

lemma last_of_chain_end:
  assumes "last_of_chain h a = Some l"
  shows "construct_triples (h l) = None"
  by (rule last_of_chain.raw_induct
        [where P = "\<lambda>h a l. construct_triples (h l) = None", OF _ assms])
     (auto split: option.splits)

lemma merge_ct_loop_frame:
  "merge_ct_loop h current_ct rest = Some h' \<Longrightarrow>
     (\<forall>a. triples (h' a) = triples (h a))
     \<and> (\<forall>a. construct_triples (h a) \<noteq> None \<longrightarrow> h' a = h a)"
proof (induction rest arbitrary: h current_ct)
  case Nil
  then show ?case by simp
next
  case (Cons next_ct rest)
  from Cons.prems obtain l where l: "last_of_chain h current_ct = Some l"
    and loop: "merge_ct_loop (h(l := (h l)\<lparr>construct_triples := Some next_ct\<rparr>)) next_ct rest
                 = Some h'"
    by (auto split: option.splits)
  from l have "construct_triples (h l) = None" by (rule last_of_chain_end)
  with Cons.IH [OF loop] show ?case by (auto split: if_splits)
qed

text \<open>
  Claim C9 as amended: \<open>merge_ct\<close> builds no new parent.  Given a non-empty list of
  \<open>ConstructTriples\<close> whose chains are finite and share no object, it returns the first
  of them, and afterwards the chain of that object is the chains of all the inputs one
  after the other: the field \<open>construct_triples\<close> of the last object of each chain but
  the last was assigned in place.  No \<open>triples\<close> field changes, no object whose
  \<open>construct_triples\<close> was set changes, and no object outside the chains changes.
\<close>

theorem merge_ct_relinks_in_place:
  assumes "list_all2 (\<lambda>a xs. path h a xs None) ct_list xss"
    and "distinct (concat xss)"
    and "ct_list \<noteq> []"
  shows "\<exists>h'. merge_ct h ct_list = Some (h', Some (hd ct_list))
    \<and> path h' (hd ct_list) (concat xss) None
    \<and> (\<forall>a. triples (h' a) = triples (h a))
    \<and> (\<forall>a. construct_triples (h a) \<noteq> None \<longrightarrow> h' a = h a)
    \<and> (\<forall>a. a \<notin> set (concat xss) \<longrightarrow> h' a = h a)"
proof -
  from assms(3) obtain first_ct rest where cts: "ct_list = first_ct # rest"
    by (cases ct_list) auto
  with assms(1) obtain cs yss where xss: "xss = cs # yss"
    and cs: "path h first_ct cs None"
    and rest: "list_all2 (\<lambda>a xs. path h a xs None) rest yss"
    by (auto simp add: list_all2_Cons1)
  from assms(2) xss have "distinct (cs @ concat yss)" by simp
  from merge_ct_loop_chain [OF cs rest this] obtain h' where
    loop: "merge_ct_loop h first_ct rest = Some h'"
    and chain: "path h' first_ct (cs @ concat yss) None"
    and outside: "\<forall>a. a \<notin> set (cs @ concat yss) \<longrightarrow> h' a = h a"
    by blast
  from merge_ct_loop_frame [OF loop]
  have frame: "\<forall>a. triples (h' a) = triples (h a)"
    "\<forall>a. construct_triples (h a) \<noteq> None \<longrightarrow> h' a = h a"
    by simp_all
  have "merge_ct h ct_list = Some (h', Some (hd ct_list))"
    using loop by (simp add: merge_ct_def cts)
  moreover have "path h' (hd ct_list) (concat xss) None"
    using chain by (simp add: cts xss)
  moreover have "\<forall>a. a \<notin> set (concat xss) \<longrightarrow> h' a = h a"
    using outside by (simp add: xss)
  ultimately show ?thesis using frame by (intro exI [of _ h'] conjI)
qed

theorem merge_ct_relinks_in_place_witness:
  "list_all2 (\<lambda>a xs. path store_example a xs None) [0, 1, 2] [[0], [1], [2]]
   \<and> distinct (concat [[0::nat], [1], [2]])
   \<and> [0::nat, 1, 2] \<noteq> []
   \<and> (\<exists>h'. merge_ct store_example [0, 1, 2] = Some (h', Some 0)
         \<and> path h' 0 [0, 1, 2] None
         \<and> triples (h' 0) = triples (store_example 0)
         \<and> h' 3 = store_example 3)"
proof -
  have pre: "list_all2 (\<lambda>a xs. path store_example a xs None) [0, 1, 2] [[0], [1], [2]]"
    "distinct (concat [[0::nat], [1], [2]])" "[0::nat, 1, 2] \<noteq> []"
    by (simp_all add: store_example_def)
  from merge_ct_relinks_in_place [OF pre] pre show ?thesis
    by auto
qed

end
